theory Spec2Isabelle
  imports Complex_Main
begin

section \<open>Numbers\<close>

text \<open>
  The program is TypeScript; every \<^verbatim>\<open>number\<close> is an IEEE double. The embedding reads
  a \<^verbatim>\<open>number\<close> as a \<^typ>\<open>real\<close>: rounding, NaN and overflow are outside the model.
  The one place where the source itself produces an infinity
  (\<^verbatim>\<open>Number.POSITIVE_INFINITY\<close> in \<^verbatim>\<open>AdaptiveKalmanFilter.update\<close>) is modelled by a
  datatype of its own. A value that may be \<^verbatim>\<open>null\<close> or \<^verbatim>\<open>undefined\<close> is an
  \<^typ>\<open>'a option\<close>.
\<close>

section \<open>AdaptiveKalmanFilter (src/utilities/AdaptiveKalmanFilter.ts)\<close>

record AdaptiveKalmanFilter =
  stateEstimate :: real
  errorCovariance :: real
  measurementNoiseVariance :: real
  processNoiseSmall :: real
  processNoiseLarge :: real
  changeThreshold :: real

definition maxInterpolationFactor :: real where
  "maxInterpolationFactor = 20"

text \<open>The constructor stores its six arguments.\<close>

definition newAdaptiveKalmanFilter ::
  "real \<Rightarrow> real \<Rightarrow> real \<Rightarrow> real \<Rightarrow> real \<Rightarrow> real \<Rightarrow> AdaptiveKalmanFilter" where
  "newAdaptiveKalmanFilter initialState initialErrorCovariance measurementNoise' pSmall pLarge threshold =
     \<lparr> stateEstimate = initialState,
       errorCovariance = initialErrorCovariance,
       measurementNoiseVariance = measurementNoise',
       processNoiseSmall = pSmall,
       processNoiseLarge = pLarge,
       changeThreshold = threshold \<rparr>"

text \<open>The effective measurement noise is a finite number or \<^verbatim>\<open>Number.POSITIVE_INFINITY\<close>.\<close>

datatype noise = Finite real | PositiveInfinity

text \<open>\<^verbatim>\<open>Math.max(0, Math.min(trust, 1))\<close>\<close>

definition clampTrust :: "real \<Rightarrow> real" where
  "clampTrust trust = max 0 (min trust 1)"

text \<open>The first block of \<^verbatim>\<open>update\<close>: the local \<^verbatim>\<open>effectiveMeasurementNoise\<close>.\<close>

definition effectiveMeasurementNoise :: "AdaptiveKalmanFilter \<Rightarrow> real \<Rightarrow> noise" where
  "effectiveMeasurementNoise f trust =
     (let clampedTrust = clampTrust trust in
      if clampedTrust = 0 then PositiveInfinity
      else if clampedTrust < 0.75 then
        (let factor = maxInterpolationFactor - ((maxInterpolationFactor - 1) / 0.75) * clampedTrust
         in Finite (measurementNoiseVariance f * factor))
      else Finite (measurementNoiseVariance f))"

text \<open>
  \<^verbatim>\<open>predictedErrorCovariance / (predictedErrorCovariance + effectiveMeasurementNoise)\<close>.
  With an infinite noise and a finite covariance the IEEE quotient is 0.
\<close>

definition kalmanGain :: "real \<Rightarrow> noise \<Rightarrow> real" where
  "kalmanGain predictedErrorCovariance n =
     (case n of
        PositiveInfinity \<Rightarrow> 0
      | Finite r \<Rightarrow> predictedErrorCovariance / (predictedErrorCovariance + r))"

text \<open>\<^verbatim>\<open>update(measurement, trust)\<close> returns the new estimate and mutates the filter.\<close>

definition update :: "AdaptiveKalmanFilter \<Rightarrow> real \<Rightarrow> real \<Rightarrow> real \<times> AdaptiveKalmanFilter" where
  "update f measurement trust =
     (let noise = effectiveMeasurementNoise f trust;
          measurementDifference = \<bar>measurement - stateEstimate f\<bar>;
          processNoise = (if measurementDifference > changeThreshold f
                          then processNoiseLarge f else processNoiseSmall f);
          predictedState = stateEstimate f;
          predictedErrorCovariance = errorCovariance f + processNoise;
          gain = kalmanGain predictedErrorCovariance noise;
          newEstimate = predictedState + gain * (measurement - predictedState);
          newCovariance = (1 - gain) * predictedErrorCovariance
      in (newEstimate, f\<lparr>stateEstimate := newEstimate, errorCovariance := newCovariance\<rparr>))"

section \<open>Configuration (src/slices/configSlice.ts)\<close>

text \<open>
  \<^verbatim>\<open>KalmanConfig\<close> of KalmanFilterManager.ts has the five tuning parameters, under the
  names they have in \<^verbatim>\<open>ConfigState\<close>. The embedding makes \<^verbatim>\<open>ConfigState\<close> a record
  extension of \<^verbatim>\<open>KalmanConfig\<close>, so that the five selectors read both. Of
  \<^verbatim>\<open>ConfigState\<close> only the fields the modelled services read are kept.
\<close>

record KalmanConfig =
  measurementNoise :: real
  kalmanQLow :: real
  kalmanQHigh :: real
  kalmanThreshold :: real
  kalmanThresholdOpenness :: real

record ConfigState = KalmanConfig +
  leftEye :: string
  rightEye :: string
  vrcOsc :: string
  vrcNative :: bool
  trackingRate :: real
  modelFile :: string
  leftEyeForcedOffline :: bool
  rightEyeForcedOffline :: bool
  trackingForcedOffline :: bool
  vrcftV1 :: bool
  vrcftV2 :: bool
  pitchOffset :: real
  independentEyes :: bool
  independentOpenness :: bool
  activeEyeTracking :: bool
  activeOpennessTracking :: bool
  opennessSliderHandles :: "real \<times> real \<times> real \<times> real"
  verticalExaggeration :: real
  horizontalExaggeration :: real
  oscPrefix :: string
  splitOutputY :: bool
  syncedEyeUpdates :: bool
  blinkReleaseDelayMs :: real
  vrcNativeNeutralValue :: real

section \<open>KalmanFilterManager (src/utilities/KalmanFilterManager.ts)\<close>








section \<open>Status (src/slices/statusSlice.ts)\<close>

datatype ConnectionStatus = online | offline | warning

record CameraFrame =
  frame :: string
  timestamp :: "real option"
  status :: ConnectionStatus

record TrackingData =
  theta1 :: real
  theta2 :: real
  thetaTimestamp :: "real option"
  openness :: real
  opennessTimestamp :: "real option"
  rightTheta1 :: real
  rightTheta2 :: real
  rightThetaTimestamp :: "real option"
  rightOpenness :: real
  rightOpennessTimestamp :: "real option"
  leftTheta1 :: real
  leftTheta2 :: real
  leftThetaTimestamp :: "real option"
  leftOpenness :: real
  leftOpennessTimestamp :: "real option"

text \<open>
  \<^verbatim>\<open>state.status.imageData.leftEye\<close> and \<^verbatim>\<open>.rightEye\<close> are the fields
  \<open>imageLeftEye\<close> and \<open>imageRightEye\<close> (the names \<^verbatim>\<open>leftEye\<close> and \<^verbatim>\<open>rightEye\<close>
  are the endpoint strings of the configuration).
\<close>

record StatusState =
  imageLeftEye :: CameraFrame
  imageRightEye :: CameraFrame
  tracking :: TrackingData

section \<open>EyeSelectionUtils (src/utilities/eyeSelectionUtils.ts)\<close>

text \<open>
  The anonymous result objects \<^verbatim>\<open>{theta1, theta2}\<close>,
  \<^verbatim>\<open>{leftTheta1, leftTheta2, rightTheta1, rightTheta2}\<close> and
  \<^verbatim>\<open>{leftOpenness, rightOpenness}\<close> are records whose fields carry a prefix, since the
  plain names are the fields of \<^verbatim>\<open>TrackingData\<close>.
\<close>

record CombinedThetas =
  cTheta1 :: real
  cTheta2 :: real

record IndThetas =
  iLeftTheta1 :: real
  iLeftTheta2 :: real
  iRightTheta1 :: real
  iRightTheta2 :: real

record IndOpenness =
  iLeftOpenness :: real
  iRightOpenness :: real

definition chooseIndependentEyeThetas :: "StatusState \<Rightarrow> IndThetas" where
  "chooseIndependentEyeThetas state =
     (let leftOnline = (status (imageLeftEye state) = online);
          rightOnline = (status (imageRightEye state) = online);
          tr = tracking state
      in if leftOnline \<and> rightOnline then
           (if leftTheta2 tr - rightTheta2 tr < 0 then
              \<lparr> iLeftTheta1 = theta1 tr, iLeftTheta2 = theta2 tr,
                iRightTheta1 = theta1 tr, iRightTheta2 = theta2 tr \<rparr>
            else
              \<lparr> iLeftTheta1 = theta1 tr, iLeftTheta2 = leftTheta2 tr,
                iRightTheta1 = theta1 tr, iRightTheta2 = rightTheta2 tr \<rparr>)
         else if leftOnline then
           \<lparr> iLeftTheta1 = leftTheta1 tr, iLeftTheta2 = leftTheta2 tr,
             iRightTheta1 = leftTheta1 tr, iRightTheta2 = leftTheta2 tr \<rparr>
         else if rightOnline then
           \<lparr> iLeftTheta1 = rightTheta1 tr, iLeftTheta2 = rightTheta2 tr,
             iRightTheta1 = rightTheta1 tr, iRightTheta2 = rightTheta2 tr \<rparr>
         else
           \<lparr> iLeftTheta1 = 0, iLeftTheta2 = 0, iRightTheta1 = 0, iRightTheta2 = 0 \<rparr>)"

definition chooseIndependentEyeOpenness :: "StatusState \<Rightarrow> IndOpenness" where
  "chooseIndependentEyeOpenness state =
     (let leftOnline = (status (imageLeftEye state) = online);
          rightOnline = (status (imageRightEye state) = online);
          tr = tracking state
      in if leftOnline \<and> rightOnline then
           \<lparr> iLeftOpenness = leftOpenness tr, iRightOpenness = rightOpenness tr \<rparr>
         else if leftOnline then
           \<lparr> iLeftOpenness = leftOpenness tr, iRightOpenness = leftOpenness tr \<rparr>
         else if rightOnline then
           \<lparr> iLeftOpenness = rightOpenness tr, iRightOpenness = rightOpenness tr \<rparr>
         else
           \<lparr> iLeftOpenness = 0, iRightOpenness = 0 \<rparr>)"

definition chooseCombinedEyeThetas :: "StatusState \<Rightarrow> CombinedThetas" where
  "chooseCombinedEyeThetas state =
     (let leftOnline = (status (imageLeftEye state) = online);
          rightOnline = (status (imageRightEye state) = online);
          tr = tracking state
      in if leftOnline \<and> rightOnline then
           \<lparr> cTheta1 = theta1 tr, cTheta2 = theta2 tr \<rparr>
         else if leftOnline then
           \<lparr> cTheta1 = leftTheta1 tr, cTheta2 = leftTheta2 tr \<rparr>
         else if rightOnline then
           \<lparr> cTheta1 = rightTheta1 tr, cTheta2 = rightTheta2 tr \<rparr>
         else
           \<lparr> cTheta1 = 0, cTheta2 = 0 \<rparr>)"

definition chooseCombinedEyeOpenness :: "StatusState \<Rightarrow> real" where
  "chooseCombinedEyeOpenness state =
     (let leftOnline = (status (imageLeftEye state) = online);
          rightOnline = (status (imageRightEye state) = online);
          tr = tracking state
      in if leftOnline \<and> rightOnline then openness tr
         else if leftOnline then leftOpenness tr
         else if rightOnline then rightOpenness tr
         else 0)"

section \<open>EqualityUtils (src/utilities/equalityUtils.ts)\<close>

text \<open>
  The source compares \<^verbatim>\<open>Math.abs(a.x - b.x)\<close>, the difference rounded to a double, with
  the double nearest to 0.001; the model compares the exact difference of the reals with
  the exact 0.001. The two agree except when the exact difference lies within a rounding
  error of 0.001.
\<close>

definition EPSILON :: real where
  "EPSILON = 0.001"

definition isEqualCombinedThetas :: "CombinedThetas \<Rightarrow> CombinedThetas \<Rightarrow> bool" where
  "isEqualCombinedThetas a b \<longleftrightarrow>
     \<bar>cTheta1 a - cTheta1 b\<bar> < EPSILON \<and> \<bar>cTheta2 a - cTheta2 b\<bar> < EPSILON"

definition isEqualIndThetas :: "IndThetas \<Rightarrow> IndThetas \<Rightarrow> bool" where
  "isEqualIndThetas a b \<longleftrightarrow>
     \<bar>iLeftTheta1 a - iLeftTheta1 b\<bar> < EPSILON \<and>
     \<bar>iLeftTheta2 a - iLeftTheta2 b\<bar> < EPSILON \<and>
     \<bar>iRightTheta1 a - iRightTheta1 b\<bar> < EPSILON \<and>
     \<bar>iRightTheta2 a - iRightTheta2 b\<bar> < EPSILON"

definition isEqualOpenness :: "IndOpenness \<Rightarrow> IndOpenness \<Rightarrow> bool" where
  "isEqualOpenness a b \<longleftrightarrow>
     \<bar>iLeftOpenness a - iLeftOpenness b\<bar> < EPSILON \<and>
     \<bar>iRightOpenness a - iRightOpenness b\<bar> < EPSILON"

section \<open>Tracking transmission (src/services/trackingTransmissionService.ts)\<close>

text \<open>The tuple \<^verbatim>\<open>opennessConfig\<close> is indexed 0 to 3.\<close>

fun transformOpenness :: "real \<Rightarrow> real \<times> real \<times> real \<times> real \<Rightarrow> real" where
  "transformOpenness v (h0, h1, h2, h3) =
     (if v < h0 then 0
      else if v < h1 then ((v - h0) / (h1 - h0)) * 0.75
      else if v < h2 then 0.75
      else if v < h3 then 0.75 + ((v - h2) / (h3 - h2)) * 0.25
      else 1)"

text \<open>
  The calls the service makes on \<^verbatim>\<open>window.electronAPI\<close> and on \<^verbatim>\<open>OscSenderUtils\<close>,
  with their arguments, in the order they are made. (\<^verbatim>\<open>updateOscClient\<close> is called
  through an optional chain; a host without it sees no such call.)
\<close>

datatype OscCall =
    UpdateOscClient string
  | SendNativeIndependentPitchYaw IndThetas real real real
  | SendNativeCombinedPitchYaw CombinedThetas real real real
  | SendNativeEyeOpenness real real
  | SendVrcftV1IndependentPitchYaw IndThetas real real real
  | SendVrcftV1CombinedPitchYaw CombinedThetas real real real
  | SendVrcftV1IndependentOpenness IndOpenness
  | SendVrcftV1CombinedOpenness real
  | SendVrcftV2IndependentPitchYaw IndThetas real real real string bool
  | SendVrcftV2CombinedPitchYaw CombinedThetas real real real string bool
  | SendVrcftV2IndependentOpenness IndOpenness string
  | SendVrcftV2CombinedOpenness real string

text \<open>The module-level variables of the service.\<close>

record TransmissionState =
  previousNativeCombinedThetas :: "CombinedThetas option"
  previousNativeIndependentThetas :: "IndThetas option"
  previousNativeOpenness :: "real option"
  previousVrcftV1CombinedThetas :: "CombinedThetas option"
  previousVrcftV1IndependentThetas :: "IndThetas option"
  previousVrcftV1OpennessCombined :: "real option"
  previousVrcftV1OpennessIndependent :: "IndOpenness option"
  previousVrcftV2CombinedThetas :: "CombinedThetas option"
  previousVrcftV2IndependentThetas :: "IndThetas option"
  previousVrcftV2OpennessCombined :: "real option"
  previousVrcftV2OpennessIndependent :: "IndOpenness option"
  previousOscEndpoint :: "string option"
  lastClosedTimestampCombined :: real
  lastClosedTimestampLeft :: real
  lastClosedTimestampRight :: real

definition initialTransmissionState :: TransmissionState where
  "initialTransmissionState =
     \<lparr> previousNativeCombinedThetas = None,
       previousNativeIndependentThetas = None,
       previousNativeOpenness = None,
       previousVrcftV1CombinedThetas = None,
       previousVrcftV1IndependentThetas = None,
       previousVrcftV1OpennessCombined = None,
       previousVrcftV1OpennessIndependent = None,
       previousVrcftV2CombinedThetas = None,
       previousVrcftV2IndependentThetas = None,
       previousVrcftV2OpennessCombined = None,
       previousVrcftV2OpennessIndependent = None,
       previousOscEndpoint = None,
       lastClosedTimestampCombined = 0,
       lastClosedTimestampLeft = 0,
       lastClosedTimestampRight = 0 \<rparr>"

text \<open>The strings \<^verbatim>\<open>'none'\<close>, \<^verbatim>\<open>'native'\<close>, \<^verbatim>\<open>'vrcftV1'\<close>, \<^verbatim>\<open>'vrcftV2'\<close> of \<^verbatim>\<open>currentMode\<close>.\<close>

datatype TransmissionMode = ModeNone | ModeNative | ModeVrcftV1 | ModeVrcftV2

text \<open>Step 1 of \<^verbatim>\<open>startTrackingTransmission\<close>.\<close>

definition currentMode :: "'a ConfigState_scheme \<Rightarrow> TransmissionMode" where
  "currentMode config =
     (if trackingForcedOffline config then ModeNone
      else if vrcNative config then ModeNative
      else if vrcftV1 config then ModeVrcftV1
      else if vrcftV2 config then ModeVrcftV2
      else ModeNone)"

definition currentEndpoint :: "'a ConfigState_scheme \<Rightarrow> string" where
  "currentEndpoint config =
     (if trackingForcedOffline config then []
      else if vrcNative config then vrcOsc config
      else if vrcftV1 config then vrcOsc config
      else if vrcftV2 config then vrcOsc config
      else [])"

text \<open>Step 2. A string is truthy when it is not empty.\<close>

definition updateOscEndpoint ::
  "'a ConfigState_scheme \<Rightarrow> TransmissionState \<Rightarrow> OscCall list \<times> TransmissionState" where
  "updateOscEndpoint config s =
     (if currentMode config \<noteq> ModeNone \<and> currentEndpoint config \<noteq> [] \<and>
         Some (currentEndpoint config) \<noteq> previousOscEndpoint s then
        ([UpdateOscClient (currentEndpoint config)],
         s\<lparr>previousOscEndpoint := Some (currentEndpoint config)\<rparr>)
      else if currentMode config = ModeNone then
        ([], s\<lparr>previousOscEndpoint := Some []\<rparr>)
      else ([], s))"

text \<open>
  The change tests the source writes before each dispatch:
  \<^verbatim>\<open>!previous || !EqualityUtils.isEqual...(new, previous)\<close> for the angle pairs and the
  independent openness, and \<^verbatim>\<open>previous === null || Math.abs(previous - new) > 0.001\<close>
  for a combined openness.
\<close>

definition changedCombinedThetas :: "CombinedThetas option \<Rightarrow> CombinedThetas \<Rightarrow> bool" where
  "changedCombinedThetas previous new =
     (case previous of None \<Rightarrow> True | Some p \<Rightarrow> \<not> isEqualCombinedThetas new p)"

definition changedIndThetas :: "IndThetas option \<Rightarrow> IndThetas \<Rightarrow> bool" where
  "changedIndThetas previous new =
     (case previous of None \<Rightarrow> True | Some p \<Rightarrow> \<not> isEqualIndThetas new p)"

definition changedIndOpenness :: "IndOpenness option \<Rightarrow> IndOpenness \<Rightarrow> bool" where
  "changedIndOpenness previous new =
     (case previous of None \<Rightarrow> True | Some p \<Rightarrow> \<not> isEqualOpenness new p)"

definition changedOpenness :: "real option \<Rightarrow> real \<Rightarrow> bool" where
  "changedOpenness previous new =
     (case previous of None \<Rightarrow> True | Some p \<Rightarrow> \<bar>p - new\<bar> > 0.001)"

text \<open>
  The blink-release block, which the source writes out for each channel of each mode:
  \<^verbatim>\<open>if (v === 0) { lastClosed = now; } else if (now <= lastClosed + blinkReleaseDelayMs) { v = 0; }\<close>.
  It returns the value to transmit and the channel's closed-at timestamp.
\<close>

definition blinkRelease :: "real \<Rightarrow> real \<Rightarrow> real \<Rightarrow> real \<Rightarrow> real \<times> real" where
  "blinkRelease delayMs now lastClosedTimestamp v =
     (if v = 0 then (v, now)
      else if now \<le> lastClosedTimestamp + delayMs then (0, lastClosedTimestamp)
      else (v, lastClosedTimestamp))"

text \<open>Step 4, native mode: eye movement, then eye openness (combined only).\<close>

definition nativeEyeMovement ::
  "'a ConfigState_scheme \<Rightarrow> StatusState \<Rightarrow> TransmissionState \<Rightarrow> OscCall list \<times> TransmissionState" where
  "nativeEyeMovement config state s =
     (if activeEyeTracking config then
        (if independentEyes config then
           (let newIndThetas = chooseIndependentEyeThetas state
            in if changedIndThetas (previousNativeIndependentThetas s) newIndThetas then
                 ([SendNativeIndependentPitchYaw newIndThetas (pitchOffset config) (verticalExaggeration config)
                    (horizontalExaggeration config)],
                  s\<lparr>previousNativeIndependentThetas := Some newIndThetas\<rparr>)
               else ([], s))
         else
           (let newCombinedThetas = chooseCombinedEyeThetas state
            in if changedCombinedThetas (previousNativeCombinedThetas s) newCombinedThetas then
                 ([SendNativeCombinedPitchYaw newCombinedThetas (pitchOffset config) (verticalExaggeration config)
                    (horizontalExaggeration config)],
                  s\<lparr>previousNativeCombinedThetas := Some newCombinedThetas\<rparr>)
               else ([], s)))
      else ([], s))"

definition nativeEyeOpenness ::
  "'a ConfigState_scheme \<Rightarrow> StatusState \<Rightarrow> real \<Rightarrow> TransmissionState
     \<Rightarrow> OscCall list \<times> TransmissionState" where
  "nativeEyeOpenness config state now s =
     (if activeOpennessTracking config then
        (let (newCombinedOpenness, closedCombined) =
                blinkRelease (blinkReleaseDelayMs config) now (lastClosedTimestampCombined s)
                  (transformOpenness (chooseCombinedEyeOpenness state) (opennessSliderHandles config));
             s1 = s\<lparr>lastClosedTimestampCombined := closedCombined\<rparr>
         in if changedOpenness (previousNativeOpenness s1) newCombinedOpenness then
              ([SendNativeEyeOpenness newCombinedOpenness (vrcNativeNeutralValue config)],
               s1\<lparr>previousNativeOpenness := Some newCombinedOpenness\<rparr>)
            else ([], s1))
      else ([], s))"

text \<open>Step 4, VRCFT v1 mode.\<close>

definition vrcftV1EyeMovement ::
  "'a ConfigState_scheme \<Rightarrow> StatusState \<Rightarrow> TransmissionState \<Rightarrow> OscCall list \<times> TransmissionState" where
  "vrcftV1EyeMovement config state s =
     (if activeEyeTracking config then
        (if independentEyes config then
           (let newIndThetas = chooseIndependentEyeThetas state
            in if changedIndThetas (previousVrcftV1IndependentThetas s) newIndThetas then
                 ([SendVrcftV1IndependentPitchYaw newIndThetas (pitchOffset config) (verticalExaggeration config)
                    (horizontalExaggeration config)],
                  s\<lparr>previousVrcftV1IndependentThetas := Some newIndThetas\<rparr>)
               else ([], s))
         else
           (let newCombinedThetas = chooseCombinedEyeThetas state
            in if changedCombinedThetas (previousVrcftV1CombinedThetas s) newCombinedThetas then
                 ([SendVrcftV1CombinedPitchYaw newCombinedThetas (pitchOffset config) (verticalExaggeration config)
                    (horizontalExaggeration config)],
                  s\<lparr>previousVrcftV1CombinedThetas := Some newCombinedThetas\<rparr>)
               else ([], s)))
      else ([], s))"

definition vrcftV1EyeOpenness ::
  "'a ConfigState_scheme \<Rightarrow> StatusState \<Rightarrow> real \<Rightarrow> TransmissionState
     \<Rightarrow> OscCall list \<times> TransmissionState" where
  "vrcftV1EyeOpenness config state now s =
     (if activeOpennessTracking config then
        (if independentOpenness config then
           (let newIndOpenness = chooseIndependentEyeOpenness state;
                (leftOpenness', closedLeft) =
                   blinkRelease (blinkReleaseDelayMs config) now (lastClosedTimestampLeft s)
                     (transformOpenness (iLeftOpenness newIndOpenness) (opennessSliderHandles config));
                (rightOpenness', closedRight) =
                   blinkRelease (blinkReleaseDelayMs config) now (lastClosedTimestampRight s)
                     (transformOpenness (iRightOpenness newIndOpenness) (opennessSliderHandles config));
                s1 = s\<lparr>lastClosedTimestampLeft := closedLeft, lastClosedTimestampRight := closedRight\<rparr>;
                newValue = \<lparr> iLeftOpenness = leftOpenness', iRightOpenness = rightOpenness' \<rparr>
            in if changedIndOpenness (previousVrcftV1OpennessIndependent s1) newValue then
                 ([SendVrcftV1IndependentOpenness newValue],
                  s1\<lparr>previousVrcftV1OpennessIndependent := Some newValue\<rparr>)
               else ([], s1))
         else
           (let (finalCombined, closedCombined) =
                   blinkRelease (blinkReleaseDelayMs config) now (lastClosedTimestampCombined s)
                     (transformOpenness (chooseCombinedEyeOpenness state) (opennessSliderHandles config));
                s1 = s\<lparr>lastClosedTimestampCombined := closedCombined\<rparr>
            in if changedOpenness (previousVrcftV1OpennessCombined s1) finalCombined then
                 ([SendVrcftV1CombinedOpenness finalCombined],
                  s1\<lparr>previousVrcftV1OpennessCombined := Some finalCombined\<rparr>)
               else ([], s1)))
      else ([], s))"

text \<open>Step 4, VRCFT v2 mode.\<close>

definition vrcftV2EyeMovement ::
  "'a ConfigState_scheme \<Rightarrow> StatusState \<Rightarrow> TransmissionState \<Rightarrow> OscCall list \<times> TransmissionState" where
  "vrcftV2EyeMovement config state s =
     (if activeEyeTracking config then
        (if independentEyes config then
           (let newIndThetas = chooseIndependentEyeThetas state
            in if changedIndThetas (previousVrcftV2IndependentThetas s) newIndThetas then
                 ([SendVrcftV2IndependentPitchYaw newIndThetas (pitchOffset config) (verticalExaggeration config)
                    (horizontalExaggeration config) (oscPrefix config) (splitOutputY config)],
                  s\<lparr>previousVrcftV2IndependentThetas := Some newIndThetas\<rparr>)
               else ([], s))
         else
           (let newCombinedThetas = chooseCombinedEyeThetas state
            in if changedCombinedThetas (previousVrcftV2CombinedThetas s) newCombinedThetas then
                 ([SendVrcftV2CombinedPitchYaw newCombinedThetas (pitchOffset config) (verticalExaggeration config)
                    (horizontalExaggeration config) (oscPrefix config) (splitOutputY config)],
                  s\<lparr>previousVrcftV2CombinedThetas := Some newCombinedThetas\<rparr>)
               else ([], s)))
      else ([], s))"

definition vrcftV2EyeOpenness ::
  "'a ConfigState_scheme \<Rightarrow> StatusState \<Rightarrow> real \<Rightarrow> TransmissionState
     \<Rightarrow> OscCall list \<times> TransmissionState" where
  "vrcftV2EyeOpenness config state now s =
     (if activeOpennessTracking config then
        (if independentOpenness config then
           (let newIndOpenness = chooseIndependentEyeOpenness state;
                (leftOpenness', closedLeft) =
                   blinkRelease (blinkReleaseDelayMs config) now (lastClosedTimestampLeft s)
                     (transformOpenness (iLeftOpenness newIndOpenness) (opennessSliderHandles config));
                (rightOpenness', closedRight) =
                   blinkRelease (blinkReleaseDelayMs config) now (lastClosedTimestampRight s)
                     (transformOpenness (iRightOpenness newIndOpenness) (opennessSliderHandles config));
                s1 = s\<lparr>lastClosedTimestampLeft := closedLeft, lastClosedTimestampRight := closedRight\<rparr>;
                newValue = \<lparr> iLeftOpenness = leftOpenness', iRightOpenness = rightOpenness' \<rparr>
            in if changedIndOpenness (previousVrcftV2OpennessIndependent s1) newValue then
                 ([SendVrcftV2IndependentOpenness newValue (oscPrefix config)],
                  s1\<lparr>previousVrcftV2OpennessIndependent := Some newValue\<rparr>)
               else ([], s1))
         else
           (let (finalCombined, closedCombined) =
                   blinkRelease (blinkReleaseDelayMs config) now (lastClosedTimestampCombined s)
                     (transformOpenness (chooseCombinedEyeOpenness state) (opennessSliderHandles config));
                s1 = s\<lparr>lastClosedTimestampCombined := closedCombined\<rparr>
            in if changedOpenness (previousVrcftV2OpennessCombined s1) finalCombined then
                 ([SendVrcftV2CombinedOpenness finalCombined (oscPrefix config)],
                  s1\<lparr>previousVrcftV2OpennessCombined := Some finalCombined\<rparr>)
               else ([], s1)))
      else ([], s))"

text \<open>
  The whole pass. \<open>now\<close> is the value of \<^verbatim>\<open>Date.now()\<close>, read once in the openness
  block that runs.
\<close>

definition startTrackingTransmission ::
  "'a ConfigState_scheme \<Rightarrow> StatusState \<Rightarrow> real \<Rightarrow> TransmissionState
     \<Rightarrow> OscCall list \<times> TransmissionState" where
  "startTrackingTransmission config state now s =
     (let (calls0, s0) = updateOscEndpoint config s
      in case currentMode config of
           ModeNone \<Rightarrow> (calls0, s0)
         | ModeNative \<Rightarrow>
             (let (calls1, s1) = nativeEyeMovement config state s0;
                  (calls2, s2) = nativeEyeOpenness config state now s1
              in (calls0 @ calls1 @ calls2, s2))
         | ModeVrcftV1 \<Rightarrow>
             (let (calls1, s1) = vrcftV1EyeMovement config state s0;
                  (calls2, s2) = vrcftV1EyeOpenness config state now s1
              in (calls0 @ calls1 @ calls2, s2))
         | ModeVrcftV2 \<Rightarrow>
             (let (calls1, s1) = vrcftV2EyeMovement config state s0;
                  (calls2, s2) = vrcftV2EyeOpenness config state now s1
              in (calls0 @ calls1 @ calls2, s2)))"

section \<open>NormalizationUtils (src/utilities/NormalizationUtils.ts)\<close>

text \<open>The four static properties of the class.\<close>

record NormalizationUtils =
  maxPosTheta1 :: real
  maxNegTheta1 :: real
  maxPosTheta2 :: real
  maxNegTheta2 :: real

definition normalizeTheta1 :: "real \<Rightarrow> NormalizationUtils \<Rightarrow> real \<times> NormalizationUtils" where
  "normalizeTheta1 deg n =
     (if deg \<ge> 0 then
        (let n1 = (if deg > maxPosTheta1 n then n\<lparr>maxPosTheta1 := deg\<rparr> else n)
         in (if maxPosTheta1 n1 = 0 then 0 else deg / maxPosTheta1 n1, n1))
      else
        (let n1 = (if deg < maxNegTheta1 n then n\<lparr>maxNegTheta1 := deg\<rparr> else n)
         in (if maxNegTheta1 n1 = 0 then 0 else deg / \<bar>maxNegTheta1 n1\<bar>, n1)))"

definition normalizeTheta2 :: "real \<Rightarrow> NormalizationUtils \<Rightarrow> real \<times> NormalizationUtils" where
  "normalizeTheta2 deg n =
     (if deg \<ge> 0 then
        (let n1 = (if deg > maxPosTheta2 n then n\<lparr>maxPosTheta2 := deg\<rparr> else n)
         in (if maxPosTheta2 n1 = 0 then 0 else deg / maxPosTheta2 n1, n1))
      else
        (let n1 = (if deg < maxNegTheta2 n then n\<lparr>maxNegTheta2 := deg\<rparr> else n)
         in (if maxNegTheta2 n1 = 0 then 0 else deg / \<bar>maxNegTheta2 n1\<bar>, n1)))"

definition resetNormalization :: "NormalizationUtils \<Rightarrow> NormalizationUtils" where
  "resetNormalization n =
     n\<lparr>maxPosTheta1 := 0, maxNegTheta1 := 0, maxPosTheta2 := 0, maxNegTheta2 := 0\<rparr>"

section \<open>OscSenderUtils (src/utilities/OscSenderUtils.ts)\<close>

text \<open>
  Of the senders the model keeps what they do to the static state of
  \<^verbatim>\<open>NormalizationUtils\<close>: the calls of \<^verbatim>\<open>normalizeTheta1\<close> and \<^verbatim>\<open>normalizeTheta2\<close> each
  sender makes, in its order. The native senders and the openness senders make none, and
  \<^verbatim>\<open>sendVrcftV1IndependentPitchYaw\<close> does not normalize \<^verbatim>\<open>rightTheta1\<close>. (The OSC
  messages themselves leave the program.)
\<close>

fun sendNormalization :: "OscCall \<Rightarrow> NormalizationUtils \<Rightarrow> NormalizationUtils" where
  "sendNormalization (SendVrcftV1CombinedPitchYaw d _ _ _) n =
     snd (normalizeTheta2 (cTheta2 d) (snd (normalizeTheta1 (cTheta1 d) n)))"
| "sendNormalization (SendVrcftV1IndependentPitchYaw d _ _ _) n =
     snd (normalizeTheta2 (iRightTheta2 d)
       (snd (normalizeTheta2 (iLeftTheta2 d) (snd (normalizeTheta1 (iLeftTheta1 d) n)))))"
| "sendNormalization (SendVrcftV2CombinedPitchYaw d _ _ _ _ _) n =
     snd (normalizeTheta2 (cTheta2 d) (snd (normalizeTheta1 (cTheta1 d) n)))"
| "sendNormalization (SendVrcftV2IndependentPitchYaw d _ _ _ _ _) n =
     snd (normalizeTheta2 (iRightTheta2 d)
       (snd (normalizeTheta2 (iLeftTheta2 d)
         (snd (normalizeTheta1 (iRightTheta1 d) (snd (normalizeTheta1 (iLeftTheta1 d) n)))))))"
| "sendNormalization _ n = n"

text \<open>The calls of a pass, carried out one after the other.\<close>

fun runSends :: "OscCall list \<Rightarrow> NormalizationUtils \<Rightarrow> NormalizationUtils" where
  "runSends [] n = n"
| "runSends (c # cs) n = runSends cs (sendNormalization c n)"

section \<open>Tracking computation (src/services/trackingComputationService.ts)\<close>

text \<open>
  The module-level variables of the service, and with them what a call of
  \<^verbatim>\<open>runTracking\<close> changes in other modules: the static state of
  \<^verbatim>\<open>NormalizationUtils\<close> and the module-level variables of the transmission service.
\<close>

record TrackingComputationState =
  currentModelFolder :: string
  ongoingTracking :: bool
  previousLeftTimestamp :: real
  previousRightTimestamp :: real
  normalization :: NormalizationUtils
  transmission :: TransmissionState

text \<open>
  \<^verbatim>\<open>String.prototype.trim\<close> removes white space and line terminators from both ends.
  A \<^typ>\<open>char\<close> is a byte, so the white space of the model is the Latin-1 part of
  ECMAScript's: TAB, LF, VT, FF, CR, SP and NBSP.
\<close>

definition isWhiteSpace :: "char \<Rightarrow> bool" where
  "isWhiteSpace c \<longleftrightarrow>
     c \<in> set [CHR 0x09, CHR 0x0A, CHR 0x0B, CHR 0x0C, CHR 0x0D, CHR 0x20, CHR 0xA0]"

definition trim :: "string \<Rightarrow> string" where
  "trim str = rev (dropWhile isWhiteSpace (rev (dropWhile isWhiteSpace str)))"

text \<open>
  What one call of \<^verbatim>\<open>runTracking\<close> does: whether the models are (re)loaded, the locals
  \<^verbatim>\<open>proceed\<close>, \<^verbatim>\<open>validLeft\<close>, \<^verbatim>\<open>validRight\<close> that steer the predictions, and the
  calls its transmission makes.
\<close>

record TrackingPass =
  modelsReloaded :: bool
  proceed :: bool
  validLeft :: bool
  validRight :: bool
  transmitted :: "OscCall list"

text \<open>
  The frame gates of \<^verbatim>\<open>runTracking\<close> (from \<^verbatim>\<open>let proceed = false\<close> to the end of
  the \<^verbatim>\<open>if\<close> chain). A timestamp is \<^verbatim>\<open>number | null\<close>; \<^verbatim>\<open>leftEye.timestamp && ...\<close>
  holds when it is neither \<^verbatim>\<open>null\<close> nor 0. The result is
  \<open>((proceed, validLeft, validRight), previousLeftTimestamp, previousRightTimestamp)\<close>.
\<close>

definition frameGates ::
  "CameraFrame \<Rightarrow> CameraFrame \<Rightarrow> real \<Rightarrow> real \<Rightarrow> bool \<Rightarrow> real \<Rightarrow> real
     \<Rightarrow> (bool \<times> bool \<times> bool) \<times> real \<times> real" where
  "frameGates leftEye' rightEye' now rate synced prevLeft prevRight =
     (if status leftEye' = online \<and> status rightEye' = online then
        (case (timestamp leftEye', timestamp rightEye') of
           (Some lt, Some rt) \<Rightarrow>
             if lt \<noteq> 0 \<and> rt \<noteq> 0 \<and>
                (now - prevLeft \<ge> rate \<and> now - prevRight \<ge> rate) \<and>
                trim (frame leftEye') \<noteq> [] \<and> trim (frame rightEye') \<noteq> [] \<and>
                (lt \<noteq> prevLeft \<or> rt \<noteq> prevRight)
             then
               (if synced then
                  (if lt \<noteq> prevLeft \<and> rt \<noteq> prevRight \<and>
                      now - prevLeft \<ge> rate \<and> now - prevRight \<ge> rate
                   then ((True, True, True), lt, rt)
                   else ((False, False, False), prevLeft, prevRight))
                else
                  (let (d1, prevLeft1) =
                         (if lt \<noteq> prevLeft \<and> now - prevLeft \<ge> rate
                          then ((True, True, True), lt)
                          else ((False, False, False), prevLeft));
                       (d2, prevRight1) =
                         (if rt \<noteq> prevRight \<and> now - prevRight \<ge> rate
                          then ((True, True, True), rt)
                          else (d1, prevRight))
                   in (d2, prevLeft1, prevRight1)))
             else ((False, False, False), prevLeft, prevRight)
         | _ \<Rightarrow> ((False, False, False), prevLeft, prevRight))
      else if status leftEye' = online then
        (case timestamp leftEye' of
           Some lt \<Rightarrow>
             if lt \<noteq> 0 \<and> now - prevLeft \<ge> rate \<and> trim (frame leftEye') \<noteq> [] \<and> lt \<noteq> prevLeft
             then ((True, True, False), lt, prevRight)
             else ((False, False, False), prevLeft, prevRight)
         | None \<Rightarrow> ((False, False, False), prevLeft, prevRight))
      else if status rightEye' = online then
        (case timestamp rightEye' of
           Some rt \<Rightarrow>
             if rt \<noteq> 0 \<and> now - prevRight \<ge> rate \<and> trim (frame rightEye') \<noteq> [] \<and> rt \<noteq> prevRight
             then ((True, False, True), prevLeft, rt)
             else ((False, False, False), prevLeft, prevRight)
         | None \<Rightarrow> ((False, False, False), prevLeft, prevRight))
      else ((False, False, False), prevLeft, prevRight))"

text \<open>
  \<^verbatim>\<open>runTracking\<close>: the re-entrancy guard, the model reload with the reset of the
  normalization, the frame gates, the predictions and the trailing call of
  \<^verbatim>\<open>startTrackingTransmission()\<close>, after which \<^verbatim>\<open>ongoingTracking\<close> is false again.
  \<open>None\<close> is the early return of the guard.

  The model loading and the predictions are calls into TensorFlow and the Kalman filters.
  They touch none of the variables of the state below; what they change is the store, by
  the updates they dispatch. (Each dispatch makes the store call \<^verbatim>\<open>runTracking\<close> again,
  which returns at the guard.) The transmission reads the store and the clock anew: what
  it finds there, after the predictions, is the parameter \<open>later\<close>.
\<close>

definition runTracking ::
  "'a ConfigState_scheme \<Rightarrow> StatusState \<Rightarrow> real \<Rightarrow> ConfigState \<times> StatusState \<times> real
     \<Rightarrow> TrackingComputationState \<Rightarrow> TrackingPass option \<times> TrackingComputationState" where
  "runTracking config state now later s =
     (if ongoingTracking s then (None, s)
      else
        (let reload = (modelFile config \<noteq> [] \<and> modelFile config \<noteq> currentModelFolder s);
             s1 = (if reload then s\<lparr>normalization := resetNormalization (normalization s)\<rparr> else s);
             s2 = s1\<lparr>currentModelFolder := modelFile config\<rparr>;
             ((proceed', validLeft', validRight'), prevLeft, prevRight) =
                frameGates (imageLeftEye state) (imageRightEye state) now (trackingRate config)
                  (syncedEyeUpdates config) (previousLeftTimestamp s2) (previousRightTimestamp s2);
             s3 = s2\<lparr>previousLeftTimestamp := prevLeft, previousRightTimestamp := prevRight\<rparr>;
             (laterConfig, laterState, laterNow) = later;
             (calls, sent) =
                startTrackingTransmission laterConfig laterState laterNow (transmission s3);
             s4 = s3\<lparr>transmission := sent, normalization := runSends calls (normalization s3)\<rparr>
         in (Some \<lparr> modelsReloaded = reload, proceed = proceed',
                     validLeft = validLeft', validRight = validRight', transmitted = calls \<rparr>,
             s4\<lparr>ongoingTracking := False\<rparr>)))"

section \<open>Camera service (src/services/cameraService.ts)\<close>

datatype Side = LeftEye | RightEye

text \<open>\<^verbatim>\<open>currentConfig[side]\<close> and the forced-offline flag of a side.\<close>

definition endpointOf :: "'a ConfigState_scheme \<Rightarrow> Side \<Rightarrow> string" where
  "endpointOf config sd = (case sd of LeftEye \<Rightarrow> leftEye config | RightEye \<Rightarrow> rightEye config)"

definition forcedOffline :: "'a ConfigState_scheme \<Rightarrow> Side \<Rightarrow> bool" where
  "forcedOffline config sd =
     (case sd of LeftEye \<Rightarrow> leftEyeForcedOffline config | RightEye \<Rightarrow> rightEyeForcedOffline config)"

text \<open>
  What a handle of \<^verbatim>\<open>connectWithReattempt\<close> closes over: its parameters \<^verbatim>\<open>side\<close> and
  \<^verbatim>\<open>ipPort\<close>, its locals \<^verbatim>\<open>activeConnection\<close> and \<^verbatim>\<open>closed\<close>, and, of the runtime,
  the connections it has created with \<^verbatim>\<open>createMJPEGConnection\<close> (\<open>True\<close> while
  \<^verbatim>\<open>close()\<close> has not been called on one; \<^verbatim>\<open>activeConnection\<close> is an index into the
  list) and the due times of its pending \<^verbatim>\<open>setTimeout\<close> callbacks.
\<close>

record Reattempt =
  side :: Side
  ipPort :: string
  activeConnection :: "nat option"
  closed :: bool
  connections :: "bool list"
  timers :: "real list"

text \<open>The module-level \<^verbatim>\<open>shuttingDown\<close> and \<^verbatim>\<open>store.getState().config\<close>.\<close>

record CameraEnv =
  shuttingDown :: bool
  storeConfig :: ConfigState

definition attemptConnection :: "CameraEnv \<Rightarrow> Reattempt \<Rightarrow> Reattempt" where
  "attemptConnection env h =
     (if closed h \<or> shuttingDown env then h
      else if side h = LeftEye \<and> leftEyeForcedOffline (storeConfig env) then h
      else if side h = RightEye \<and> rightEyeForcedOffline (storeConfig env) then h
      else h\<lparr>activeConnection := Some (length (connections h)),
             connections := connections h @ [True]\<rparr>)"

text \<open>\<^verbatim>\<open>onError\<close>, called by a connection at time \<open>now\<close>: \<^verbatim>\<open>setTimeout(..., 2000)\<close>.\<close>

definition onError :: "real \<Rightarrow> Reattempt \<Rightarrow> Reattempt" where
  "onError now h = h\<lparr>timers := timers h @ [now + 2000]\<rparr>"

text \<open>The callback given to \<^verbatim>\<open>setTimeout\<close>.\<close>

definition retryCallback :: "CameraEnv \<Rightarrow> Reattempt \<Rightarrow> Reattempt" where
  "retryCallback env h =
     (if \<not> closed h \<and> \<not> shuttingDown env \<and>
         endpointOf (storeConfig env) (side h) = ipPort h \<and>
         (if side h = LeftEye then \<not> leftEyeForcedOffline (storeConfig env)
          else \<not> rightEyeForcedOffline (storeConfig env))
      then attemptConnection env h
      else h)"

text \<open>The \<^verbatim>\<open>close\<close> of the returned handle: \<^verbatim>\<open>closed = true; activeConnection?.close()\<close>.\<close>

definition close :: "Reattempt \<Rightarrow> Reattempt" where
  "close h =
     h\<lparr>closed := True,
       connections := (case activeConnection h of
                         None \<Rightarrow> connections h
                       | Some i \<Rightarrow> (connections h)[i := False])\<rparr>"

definition connectWithReattempt :: "Side \<Rightarrow> string \<Rightarrow> CameraEnv \<Rightarrow> Reattempt" where
  "connectWithReattempt sd ip env =
     attemptConnection env
       \<lparr> side = sd, ipPort = ip, activeConnection = None, closed = False,
         connections = [], timers = [] \<rparr>"

text \<open>
  The runtime: at time \<open>now\<close> the event loop runs, in the order they were set, the
  callbacks whose time has come (a timer never fires before its delay has passed), and
  drops them from the pending ones.
\<close>

fun runCallbacks :: "CameraEnv \<Rightarrow> real list \<Rightarrow> Reattempt \<Rightarrow> Reattempt" where
  "runCallbacks env [] h = h"
| "runCallbacks env (d # ds) h = runCallbacks env ds (retryCallback env h)"

definition runTimers :: "CameraEnv \<Rightarrow> real \<Rightarrow> Reattempt \<Rightarrow> Reattempt" where
  "runTimers env now h =
     runCallbacks env (filter (\<lambda>d. d \<le> now) (timers h))
       (h\<lparr>timers := filter (\<lambda>d. \<not> d \<le> now) (timers h)\<rparr>)"

text \<open>
  What can happen to a handle and its environment: a connection reports an error, time
  passes, the handle is closed, the configuration changes, the service shuts down.
\<close>

datatype CameraEvent =
    ConnectionError real
  | TimePasses real
  | CloseHandle
  | ConfigChange ConfigState
  | ShutDown

fun cameraStep :: "CameraEvent \<Rightarrow> CameraEnv \<times> Reattempt \<Rightarrow> CameraEnv \<times> Reattempt" where
  "cameraStep (ConnectionError now) (env, h) = (env, onError now h)"
| "cameraStep (TimePasses now) (env, h) = (env, runTimers env now h)"
| "cameraStep CloseHandle (env, h) = (env, close h)"
| "cameraStep (ConfigChange c) (env, h) = (env\<lparr>storeConfig := c\<rparr>, h)"
| "cameraStep ShutDown (env, h) = (env\<lparr>shuttingDown := True\<rparr>, h)"

fun cameraRun :: "CameraEvent list \<Rightarrow> CameraEnv \<times> Reattempt \<Rightarrow> CameraEnv \<times> Reattempt" where
  "cameraRun [] st = st"
| "cameraRun (e # es) st = cameraRun es (cameraStep e st)"

section \<open>Reading a pass of the transmission\<close>

text \<open>
  The angle pairs and the openness values a pass has dispatched, read off its calls, and
  the cache (the \<^verbatim>\<open>previous...\<close> variable) that a mode compares with on each path.
\<close>

fun combinedThetasOf :: "OscCall \<Rightarrow> CombinedThetas option" where
  "combinedThetasOf (SendNativeCombinedPitchYaw d _ _ _) = Some d"
| "combinedThetasOf (SendVrcftV1CombinedPitchYaw d _ _ _) = Some d"
| "combinedThetasOf (SendVrcftV2CombinedPitchYaw d _ _ _ _ _) = Some d"
| "combinedThetasOf _ = None"

fun indThetasOf :: "OscCall \<Rightarrow> IndThetas option" where
  "indThetasOf (SendNativeIndependentPitchYaw d _ _ _) = Some d"
| "indThetasOf (SendVrcftV1IndependentPitchYaw d _ _ _) = Some d"
| "indThetasOf (SendVrcftV2IndependentPitchYaw d _ _ _ _ _) = Some d"
| "indThetasOf _ = None"

definition combinedThetasSent :: "OscCall list \<Rightarrow> CombinedThetas list" where
  "combinedThetasSent calls = List.map_filter combinedThetasOf calls"

definition indThetasSent :: "OscCall list \<Rightarrow> IndThetas list" where
  "indThetasSent calls = List.map_filter indThetasOf calls"

fun previousCombinedThetas :: "TransmissionMode \<Rightarrow> TransmissionState \<Rightarrow> CombinedThetas option" where
  "previousCombinedThetas ModeNative s = previousNativeCombinedThetas s"
| "previousCombinedThetas ModeVrcftV1 s = previousVrcftV1CombinedThetas s"
| "previousCombinedThetas ModeVrcftV2 s = previousVrcftV2CombinedThetas s"
| "previousCombinedThetas ModeNone s = None"

fun previousIndependentThetas :: "TransmissionMode \<Rightarrow> TransmissionState \<Rightarrow> IndThetas option" where
  "previousIndependentThetas ModeNative s = previousNativeIndependentThetas s"
| "previousIndependentThetas ModeVrcftV1 s = previousVrcftV1IndependentThetas s"
| "previousIndependentThetas ModeVrcftV2 s = previousVrcftV2IndependentThetas s"
| "previousIndependentThetas ModeNone s = None"

fun combinedOpennessOf :: "OscCall \<Rightarrow> real option" where
  "combinedOpennessOf (SendNativeEyeOpenness v _) = Some v"
| "combinedOpennessOf (SendVrcftV1CombinedOpenness v) = Some v"
| "combinedOpennessOf (SendVrcftV2CombinedOpenness v _) = Some v"
| "combinedOpennessOf _ = None"

fun indOpennessOf :: "OscCall \<Rightarrow> IndOpenness option" where
  "indOpennessOf (SendVrcftV1IndependentOpenness d) = Some d"
| "indOpennessOf (SendVrcftV2IndependentOpenness d _) = Some d"
| "indOpennessOf _ = None"

definition combinedOpennessSent :: "OscCall list \<Rightarrow> real list" where
  "combinedOpennessSent calls = List.map_filter combinedOpennessOf calls"

definition indOpennessSent :: "OscCall list \<Rightarrow> IndOpenness list" where
  "indOpennessSent calls = List.map_filter indOpennessOf calls"




fun transmissionRun ::
  "(ConfigState \<times> StatusState \<times> real) list \<Rightarrow> TransmissionState
     \<Rightarrow> OscCall list \<times> TransmissionState" where
  "transmissionRun [] s = ([], s)"
| "transmissionRun ((cfg, st, now) # passes) s =
     (let (calls1, s1) = startTrackingTransmission cfg st now s;
          (calls2, s2) = transmissionRun passes s1
      in (calls1 @ calls2, s2))"

section \<open>One openness channel over several passes\<close>

text \<open>
  The service keeps three openness channels, each with a closed-at timestamp of its own.
  A pass computes the combined channel in native mode, and in the VRCFT modes when
  \<^verbatim>\<open>independentOpenness\<close> is off; it computes the left and the right channel in the
  VRCFT modes when \<^verbatim>\<open>independentOpenness\<close> is on; and it computes none when the mode is
  off or \<^verbatim>\<open>activeOpennessTracking\<close> is off.
\<close>

datatype OpennessChannel = ChannelCombined | ChannelLeft | ChannelRight

fun channelUsed :: "OpennessChannel \<Rightarrow> 'a ConfigState_scheme \<Rightarrow> bool" where
  "channelUsed ChannelCombined config =
     (activeOpennessTracking config \<and>
      (currentMode config = ModeNative \<or>
       (currentMode config = ModeVrcftV1 \<and> \<not> independentOpenness config) \<or>
       (currentMode config = ModeVrcftV2 \<and> \<not> independentOpenness config)))"
| "channelUsed ChannelLeft config =
     (activeOpennessTracking config \<and> independentOpenness config \<and>
      (currentMode config = ModeVrcftV1 \<or> currentMode config = ModeVrcftV2))"
| "channelUsed ChannelRight config =
     (activeOpennessTracking config \<and> independentOpenness config \<and>
      (currentMode config = ModeVrcftV1 \<or> currentMode config = ModeVrcftV2))"

text \<open>The transformed openness a pass reads for a channel, before the blink release.\<close>

fun channelReading :: "OpennessChannel \<Rightarrow> 'a ConfigState_scheme \<Rightarrow> StatusState \<Rightarrow> real" where
  "channelReading ChannelCombined config state =
     transformOpenness (chooseCombinedEyeOpenness state) (opennessSliderHandles config)"
| "channelReading ChannelLeft config state =
     transformOpenness (iLeftOpenness (chooseIndependentEyeOpenness state))
       (opennessSliderHandles config)"
| "channelReading ChannelRight config state =
     transformOpenness (iRightOpenness (chooseIndependentEyeOpenness state))
       (opennessSliderHandles config)"

fun channelClosedAt :: "OpennessChannel \<Rightarrow> TransmissionState \<Rightarrow> real" where
  "channelClosedAt ChannelCombined s = lastClosedTimestampCombined s"
| "channelClosedAt ChannelLeft s = lastClosedTimestampLeft s"
| "channelClosedAt ChannelRight s = lastClosedTimestampRight s"

text \<open>
  The values a pass dispatches on a channel, and the value of the channel that the
  receiver of a mode holds: the one dispatched last, which the service keeps in the
  \<^verbatim>\<open>previous...Openness...\<close> variable of the mode.
\<close>

fun channelSent :: "OpennessChannel \<Rightarrow> OscCall list \<Rightarrow> real list" where
  "channelSent ChannelCombined calls = combinedOpennessSent calls"
| "channelSent ChannelLeft calls = map iLeftOpenness (indOpennessSent calls)"
| "channelSent ChannelRight calls = map iRightOpenness (indOpennessSent calls)"

fun channelCache :: "OpennessChannel \<Rightarrow> TransmissionMode \<Rightarrow> TransmissionState \<Rightarrow> real option" where
  "channelCache ChannelCombined ModeNative s = previousNativeOpenness s"
| "channelCache ChannelCombined ModeVrcftV1 s = previousVrcftV1OpennessCombined s"
| "channelCache ChannelCombined ModeVrcftV2 s = previousVrcftV2OpennessCombined s"
| "channelCache ChannelLeft ModeVrcftV1 s =
     map_option iLeftOpenness (previousVrcftV1OpennessIndependent s)"
| "channelCache ChannelLeft ModeVrcftV2 s =
     map_option iLeftOpenness (previousVrcftV2OpennessIndependent s)"
| "channelCache ChannelRight ModeVrcftV1 s =
     map_option iRightOpenness (previousVrcftV1OpennessIndependent s)"
| "channelCache ChannelRight ModeVrcftV2 s =
     map_option iRightOpenness (previousVrcftV2OpennessIndependent s)"
| "channelCache _ _ s = None"

text \<open>
  A pass, given by its calls and the state it leaves, outputs \<open>v\<close> on a channel when it
  dispatches \<open>v\<close>, once, and holds it as the last dispatched value, or when it dispatches
  nothing because the last dispatched value is within the tolerance 0.001 of \<open>v\<close> (the
  change test of the service drops such a value).
\<close>

definition channelOutputs ::
  "OpennessChannel \<Rightarrow> 'a ConfigState_scheme \<Rightarrow> OscCall list \<times> TransmissionState \<Rightarrow> real \<Rightarrow> bool" where
  "channelOutputs ch config pass v =
     (case channelCache ch (currentMode config) (snd pass) of
        None \<Rightarrow> False
      | Some c \<Rightarrow>
          (channelSent ch (fst pass) = [v] \<and> c = v) \<or>
          (channelSent ch (fst pass) = [] \<and> \<bar>c - v\<bar> \<le> 0.001))"

section \<open>Example states\<close>

text \<open>
  \<^verbatim>\<open>initialState\<close> of configSlice.ts, on the fields of the model. (The slice under src/
  gives no default for \<^verbatim>\<open>vrcNativeNeutralValue\<close>; the example takes 0.5.)
\<close>

definition initialState :: ConfigState where
  "initialState =
     \<lparr> measurementNoise = 4, kalmanQLow = 0.03, kalmanQHigh = 50, kalmanThreshold = 2,
       kalmanThresholdOpenness = 0.03,
       leftEye = [], rightEye = [], vrcOsc = ''127.0.0.1:9000'', vrcNative = False,
       trackingRate = 25, modelFile = [],
       leftEyeForcedOffline = False, rightEyeForcedOffline = False,
       trackingForcedOffline = False, vrcftV1 = False, vrcftV2 = False, pitchOffset = 0,
       independentEyes = False, independentOpenness = False,
       activeEyeTracking = True, activeOpennessTracking = False,
       opennessSliderHandles = (0.15, 0.65, 0.95, 1.0),
       verticalExaggeration = 1, horizontalExaggeration = 1,
       oscPrefix = ''ft/f/'', splitOutputY = False, syncedEyeUpdates = False,
       blinkReleaseDelayMs = 25, vrcNativeNeutralValue = 0.5 \<rparr>"

text \<open>The default configuration with the native mode switched on.\<close>

definition nativeConfig :: ConfigState where
  "nativeConfig = initialState\<lparr>vrcNative := True\<rparr>"


text \<open>
  A status with both eyes online, combined angles \<open>(1, 2)\<close>, left-eye angles \<open>(3, 4)\<close>
  and right-eye angles \<open>(5, 6)\<close>: the second angles diverge (\<open>4 - 6 < 0\<close>). In the second
  status the second angles of the eyes are swapped, and converge.
\<close>

definition exampleTracking :: TrackingData where
  "exampleTracking =
     \<lparr> theta1 = 1, theta2 = 2, thetaTimestamp = Some 1000,
       openness = 0.75, opennessTimestamp = Some 1000,
       rightTheta1 = 5, rightTheta2 = 6, rightThetaTimestamp = Some 1000,
       rightOpenness = 0.75, rightOpennessTimestamp = Some 1000,
       leftTheta1 = 3, leftTheta2 = 4, leftThetaTimestamp = Some 1000,
       leftOpenness = 0.75, leftOpennessTimestamp = Some 1000 \<rparr>"

definition bothOnlineDivergent :: StatusState where
  "bothOnlineDivergent =
     \<lparr> imageLeftEye = \<lparr> frame = ''data:left'', timestamp = Some 1000, status = online \<rparr>,
       imageRightEye = \<lparr> frame = ''data:right'', timestamp = Some 1005, status = online \<rparr>,
       tracking = exampleTracking \<rparr>"

definition bothOnlineConvergent :: StatusState where
  "bothOnlineConvergent =
     bothOnlineDivergent\<lparr>tracking := exampleTracking\<lparr>leftTheta2 := 6, rightTheta2 := 4\<rparr>\<rparr>"

text \<open>
  The native configuration with openness tracking switched on, and the status above with
  the eyes shut: a raw openness of 0.1, below the first slider handle.
\<close>

definition opennessConfig :: ConfigState where
  "opennessConfig = nativeConfig\<lparr>activeOpennessTracking := True\<rparr>"

definition eyesShut :: StatusState where
  "eyesShut =
     bothOnlineDivergent\<lparr>tracking :=
       exampleTracking\<lparr>openness := 0.1, leftOpenness := 0.1, rightOpenness := 0.1\<rparr>\<rparr>"

text \<open>
  A service that has processed a left frame of time 900 and a right frame of time 1005,
  with no model loaded, nothing normalized and nothing transmitted yet.
\<close>

definition idleTracking :: TrackingComputationState where
  "idleTracking =
     \<lparr> currentModelFolder = [], ongoingTracking = False,
       previousLeftTimestamp = 900, previousRightTimestamp = 1005,
       normalization = \<lparr> maxPosTheta1 = 0, maxNegTheta1 = 0, maxPosTheta2 = 0, maxNegTheta2 = 0 \<rparr>,
       transmission = initialTransmissionState \<rparr>"

text \<open>The same status with a new left frame, of time 1008.\<close>

definition newLeftFrame :: StatusState where
  "newLeftFrame =
     bothOnlineDivergent\<lparr>imageLeftEye :=
       \<lparr> frame = ''data:left'', timestamp = Some 1008, status = online \<rparr>\<rparr>"

text \<open>
  A left camera configured at an endpoint, and the handle \<^verbatim>\<open>startCameraService\<close> opens
  for it.
\<close>

definition cameraEnv :: CameraEnv where
  "cameraEnv = \<lparr> shuttingDown = False, storeConfig = initialState\<lparr>leftEye := ''192.168.0.10:8080''\<rparr> \<rparr>"

definition leftHandle :: Reattempt where
  "leftHandle = connectWithReattempt LeftEye ''192.168.0.10:8080'' cameraEnv"

section \<open>Properties of the adaptive filter\<close>

lemma clampTrust_range: "0 \<le> clampTrust t \<and> clampTrust t \<le> 1"
  by (simp add: clampTrust_def)

text \<open>The effective measurement noise is the one the gain of \<open>update\<close> is computed with.\<close>

lemma update_uses_effective_noise:
  "fst (update f measurement trust) =
     stateEstimate f +
       kalmanGain
         (errorCovariance f +
            (if \<bar>measurement - stateEstimate f\<bar> > changeThreshold f
             then processNoiseLarge f else processNoiseSmall f))
         (effectiveMeasurementNoise f trust)
       * (measurement - stateEstimate f)"
  by (simp add: update_def Let_def)

text \<open>
  Claim C1. For every call \<open>update f measurement trust\<close>, with the trust clamped to
  \<open>[0, 1]\<close>, the predicted covariance \<open>p\<close> being the stored covariance plus the process
  noise chosen, and \<open>r\<close> the configured base measurement noise: when the clamped trust is
  at least 0.75 the effective measurement noise is \<open>r\<close> exactly and the call returns and
  stores the estimate moved towards the measurement by the gain \<open>p / (p + r)\<close>; when the
  clamped trust is 0 the call returns and stores the prior estimate (and stores \<open>p\<close> as
  the covariance); when the clamped trust lies strictly between 0 and 0.75 the effective
  noise, and the noise in the gain, is \<open>r\<close> times the linear interpolation between 20 (at
  0) and 1 (at 0.75) with weight \<open>trust / 0.75\<close>.
\<close>

theorem update_trust_noise:
  "(let est = stateEstimate f;
        p = errorCovariance f +
              (if \<bar>measurement - est\<bar> > changeThreshold f
               then processNoiseLarge f else processNoiseSmall f);
        r = measurementNoiseVariance f;
        c = clampTrust trust;
        factor = 20 * (1 - c / 0.75) + 1 * (c / 0.75)
    in
      (0.75 \<le> c \<longrightarrow>
         effectiveMeasurementNoise f trust = Finite r \<and>
         update f measurement trust =
           (est + (p / (p + r)) * (measurement - est),
            f\<lparr>stateEstimate := est + (p / (p + r)) * (measurement - est),
              errorCovariance := (1 - p / (p + r)) * p\<rparr>)) \<and>
      (c = 0 \<longrightarrow>
         update f measurement trust = (est, f\<lparr>stateEstimate := est, errorCovariance := p\<rparr>)) \<and>
      (0 < c \<and> c < 0.75 \<longrightarrow>
         effectiveMeasurementNoise f trust = Finite (r * factor) \<and>
         update f measurement trust =
           (est + (p / (p + r * factor)) * (measurement - est),
            f\<lparr>stateEstimate := est + (p / (p + r * factor)) * (measurement - est),
              errorCovariance := (1 - p / (p + r * factor)) * p\<rparr>)))"
proof -
  have high: "effectiveMeasurementNoise f trust = Finite (measurementNoiseVariance f)"
    if "0.75 \<le> clampTrust trust"
    using that by (simp add: effectiveMeasurementNoise_def Let_def)
  have zero: "effectiveMeasurementNoise f trust = PositiveInfinity"
    if "clampTrust trust = 0"
    using that by (simp add: effectiveMeasurementNoise_def Let_def)
  have mid: "effectiveMeasurementNoise f trust =
      Finite (measurementNoiseVariance f *
               (20 * (1 - clampTrust trust / 0.75) + 1 * (clampTrust trust / 0.75)))"
    if "0 < clampTrust trust \<and> clampTrust trust < 0.75"
    using that
    by (simp add: effectiveMeasurementNoise_def Let_def maxInterpolationFactor_def algebra_simps)
  show ?thesis
    unfolding Let_def
  proof (intro conjI impI)
    assume h: "0.75 \<le> clampTrust trust"
    show "effectiveMeasurementNoise f trust = Finite (measurementNoiseVariance f)"
      by (rule high[OF h])
    show "update f measurement trust =
      (stateEstimate f +
         (errorCovariance f +
            (if \<bar>measurement - stateEstimate f\<bar> > changeThreshold f
             then processNoiseLarge f else processNoiseSmall f)) /
         (errorCovariance f +
            (if \<bar>measurement - stateEstimate f\<bar> > changeThreshold f
             then processNoiseLarge f else processNoiseSmall f) +
          measurementNoiseVariance f) * (measurement - stateEstimate f),
       f\<lparr>stateEstimate := stateEstimate f +
           (errorCovariance f +
              (if \<bar>measurement - stateEstimate f\<bar> > changeThreshold f
               then processNoiseLarge f else processNoiseSmall f)) /
           (errorCovariance f +
              (if \<bar>measurement - stateEstimate f\<bar> > changeThreshold f
               then processNoiseLarge f else processNoiseSmall f) +
            measurementNoiseVariance f) * (measurement - stateEstimate f),
         errorCovariance := (1 -
           (errorCovariance f +
              (if \<bar>measurement - stateEstimate f\<bar> > changeThreshold f
               then processNoiseLarge f else processNoiseSmall f)) /
           (errorCovariance f +
              (if \<bar>measurement - stateEstimate f\<bar> > changeThreshold f
               then processNoiseLarge f else processNoiseSmall f) +
            measurementNoiseVariance f)) *
           (errorCovariance f +
              (if \<bar>measurement - stateEstimate f\<bar> > changeThreshold f
               then processNoiseLarge f else processNoiseSmall f))\<rparr>)"
      by (simp only: update_def Let_def high[OF h] kalmanGain_def noise.case)
  next
    assume h: "clampTrust trust = 0"
    show "update f measurement trust =
      (stateEstimate f,
       f\<lparr>stateEstimate := stateEstimate f,
         errorCovariance := errorCovariance f +
            (if \<bar>measurement - stateEstimate f\<bar> > changeThreshold f
             then processNoiseLarge f else processNoiseSmall f)\<rparr>)"
      by (simp add: update_def Let_def zero[OF h] kalmanGain_def)
  next
    assume h: "0 < clampTrust trust \<and> clampTrust trust < 0.75"
    show "effectiveMeasurementNoise f trust =
      Finite (measurementNoiseVariance f *
               (20 * (1 - clampTrust trust / 0.75) + 1 * (clampTrust trust / 0.75)))"
      by (rule mid[OF h])
    show "update f measurement trust =
      (stateEstimate f +
         (errorCovariance f +
            (if \<bar>measurement - stateEstimate f\<bar> > changeThreshold f
             then processNoiseLarge f else processNoiseSmall f)) /
         (errorCovariance f +
            (if \<bar>measurement - stateEstimate f\<bar> > changeThreshold f
             then processNoiseLarge f else processNoiseSmall f) +
          measurementNoiseVariance f *
            (20 * (1 - clampTrust trust / 0.75) + 1 * (clampTrust trust / 0.75))) *
         (measurement - stateEstimate f),
       f\<lparr>stateEstimate := stateEstimate f +
           (errorCovariance f +
              (if \<bar>measurement - stateEstimate f\<bar> > changeThreshold f
               then processNoiseLarge f else processNoiseSmall f)) /
           (errorCovariance f +
              (if \<bar>measurement - stateEstimate f\<bar> > changeThreshold f
               then processNoiseLarge f else processNoiseSmall f) +
            measurementNoiseVariance f *
              (20 * (1 - clampTrust trust / 0.75) + 1 * (clampTrust trust / 0.75))) *
           (measurement - stateEstimate f),
         errorCovariance := (1 -
           (errorCovariance f +
              (if \<bar>measurement - stateEstimate f\<bar> > changeThreshold f
               then processNoiseLarge f else processNoiseSmall f)) /
           (errorCovariance f +
              (if \<bar>measurement - stateEstimate f\<bar> > changeThreshold f
               then processNoiseLarge f else processNoiseSmall f) +
            measurementNoiseVariance f *
              (20 * (1 - clampTrust trust / 0.75) + 1 * (clampTrust trust / 0.75)))) *
           (errorCovariance f +
              (if \<bar>measurement - stateEstimate f\<bar> > changeThreshold f
               then processNoiseLarge f else processNoiseSmall f))\<rparr>)"
      by (simp only: update_def Let_def mid[OF h] kalmanGain_def noise.case)
  qed
qed

text \<open>
  With the default tuning (base noise 4, process noise 0.03 and 50, threshold 2), the
  estimate 0 with covariance 1 and the measurement 10: full trust moves the estimate by the
  gain \<open>51 / 55\<close>, no trust leaves it at 0, and the trust 0.375 gives the noise
  \<open>4 * 10.5 = 42\<close> and the gain \<open>51 / 93\<close>.
\<close>

theorem update_trust_noise_witness:
  "effectiveMeasurementNoise (newAdaptiveKalmanFilter 0 1 4 0.03 50 2) 2 = Finite 4 \<and>
   fst (update (newAdaptiveKalmanFilter 0 1 4 0.03 50 2) 10 2) = 102 / 11 \<and>
   update (newAdaptiveKalmanFilter 0 1 4 0.03 50 2) 10 (- 1) =
     (0, newAdaptiveKalmanFilter 0 51 4 0.03 50 2) \<and>
   effectiveMeasurementNoise (newAdaptiveKalmanFilter 0 1 4 0.03 50 2) 0.375 = Finite 42 \<and>
   fst (update (newAdaptiveKalmanFilter 0 1 4 0.03 50 2) 10 0.375) = 170 / 31"
  using update_trust_noise [of "newAdaptiveKalmanFilter 0 1 4 0.03 50 2" 10 2]
    update_trust_noise [of "newAdaptiveKalmanFilter 0 1 4 0.03 50 2" 10 "- 1"]
    update_trust_noise [of "newAdaptiveKalmanFilter 0 1 4 0.03 50 2" 10 "0.375"]
  by (simp add: clampTrust_def newAdaptiveKalmanFilter_def Let_def)

section \<open>Properties of the openness transform\<close>

lemma ramp_bounds:
  fixes v a b :: real
  assumes "a \<le> v" "v < b"
  shows "0 \<le> (v - a) / (b - a)" "(v - a) / (b - a) < 1"
  using assms by (simp_all add: field_simps)

lemma ramp_mono:
  fixes v w a b :: real
  assumes "v \<le> w" "a < b"
  shows "(v - a) / (b - a) \<le> (w - a) / (b - a)"
  using assms by (simp add: divide_right_mono)

lemma transformOpenness_below: "v < h0 \<Longrightarrow> transformOpenness v (h0, h1, h2, h3) = 0"
  by simp

lemma transformOpenness_ramp1:
  "h0 \<le> v \<Longrightarrow> v < h1 \<Longrightarrow>
   transformOpenness v (h0, h1, h2, h3) = ((v - h0) / (h1 - h0)) * 0.75"
  by simp

lemma transformOpenness_flat:
  "h0 \<le> h1 \<Longrightarrow> h1 \<le> v \<Longrightarrow> v < h2 \<Longrightarrow> transformOpenness v (h0, h1, h2, h3) = 0.75"
  by simp

lemma transformOpenness_ramp2:
  "h0 \<le> h1 \<Longrightarrow> h1 \<le> h2 \<Longrightarrow> h2 \<le> v \<Longrightarrow> v < h3 \<Longrightarrow>
   transformOpenness v (h0, h1, h2, h3) = 0.75 + ((v - h2) / (h3 - h2)) * 0.25"
  by simp

lemma transformOpenness_above:
  "h0 \<le> h1 \<Longrightarrow> h1 \<le> h2 \<Longrightarrow> h2 \<le> h3 \<Longrightarrow> h3 \<le> v \<Longrightarrow>
   transformOpenness v (h0, h1, h2, h3) = 1"
  by simp

lemma transformOpenness_cases:
  assumes "h0 \<le> h1" "h1 \<le> h2" "h2 \<le> h3"
  obtains
    (below) "v < h0" "transformOpenness v (h0, h1, h2, h3) = 0"
  | (ramp1) r where "h0 \<le> v" "v < h1" "0 \<le> r" "r < 1" "r = (v - h0) / (h1 - h0)"
      "transformOpenness v (h0, h1, h2, h3) = r * (3 / 4)"
  | (flat) "h1 \<le> v" "v < h2" "transformOpenness v (h0, h1, h2, h3) = 3 / 4"
  | (ramp2) r where "h2 \<le> v" "v < h3" "0 \<le> r" "r < 1" "r = (v - h2) / (h3 - h2)"
      "transformOpenness v (h0, h1, h2, h3) = 3 / 4 + r * (1 / 4)"
  | (above) "h3 \<le> v" "transformOpenness v (h0, h1, h2, h3) = 1"
proof -
  consider "v < h0" | "h0 \<le> v" "v < h1" | "h1 \<le> v" "v < h2" | "h2 \<le> v" "v < h3" | "h3 \<le> v"
    by linarith
  then show thesis
  proof cases
    case 1
    then show ?thesis using below transformOpenness_below by blast
  next
    case 2
    then show ?thesis
      using ramp1[of "(v - h0) / (h1 - h0)"] ramp_bounds[of h0 v h1]
        transformOpenness_ramp1[of h0 v h1 h2 h3]
      by simp
  next
    case 3
    then show ?thesis using flat transformOpenness_flat[of h0 h1 v h2 h3] assms by simp
  next
    case 4
    then show ?thesis
      using ramp2[of "(v - h2) / (h3 - h2)"] ramp_bounds[of h2 v h3]
        transformOpenness_ramp2[of h0 h1 h2 v h3] assms
      by simp
  next
    case 5
    then show ?thesis using above transformOpenness_above assms by blast
  qed
qed

lemma transformOpenness_range:
  assumes "h0 \<le> h1" "h1 \<le> h2" "h2 \<le> h3"
  shows "0 \<le> transformOpenness v (h0, h1, h2, h3) \<and> transformOpenness v (h0, h1, h2, h3) \<le> 1"
  using assms
proof (cases rule: transformOpenness_cases[where v = v])
  case below
  then show ?thesis by simp
next
  case (ramp1 r)
  from ramp1(3,4,6) show ?thesis by linarith
next
  case flat
  then show ?thesis by simp
next
  case (ramp2 r)
  from ramp2(3,4,6) show ?thesis by linarith
next
  case above
  then show ?thesis by simp
qed

lemma transformOpenness_mono:
  assumes "h0 \<le> h1" "h1 \<le> h2" "h2 \<le> h3" "v \<le> w"
  shows "transformOpenness v (h0, h1, h2, h3) \<le> transformOpenness w (h0, h1, h2, h3)"
  using assms(1-3)
proof (cases rule: transformOpenness_cases[where v = v])
  case below
  then show ?thesis using transformOpenness_range[OF assms(1-3), of w] by simp
next
  case (ramp1 r)
  note v = this
  from assms(1-3) show ?thesis
  proof (cases rule: transformOpenness_cases[where v = w])
    case below
    then show ?thesis using v assms(4) by linarith
  next
    case (ramp1 r')
    have "r \<le> r'" using ramp_mono[of v w h0 h1] assms(4) v ramp1 by simp
    then show ?thesis using v(6) ramp1(6) by linarith
  next
    case flat
    then show ?thesis using v by linarith
  next
    case (ramp2 r')
    then show ?thesis using v by linarith
  next
    case above
    then show ?thesis using v by linarith
  qed
next
  case flat
  note v = this
  from assms(1-3) show ?thesis
  proof (cases rule: transformOpenness_cases[where v = w])
    case below
    then show ?thesis using v assms by linarith
  next
    case (ramp1 r')
    then show ?thesis using v assms by linarith
  next
    case flat
    then show ?thesis using v by linarith
  next
    case (ramp2 r')
    then show ?thesis using v by linarith
  next
    case above
    then show ?thesis using v by linarith
  qed
next
  case (ramp2 r)
  note v = this
  from assms(1-3) show ?thesis
  proof (cases rule: transformOpenness_cases[where v = w])
    case below
    then show ?thesis using v assms by linarith
  next
    case (ramp1 r')
    then show ?thesis using v assms by linarith
  next
    case flat
    then show ?thesis using v assms by linarith
  next
    case (ramp2 r')
    have "r \<le> r'" using ramp_mono[of v w h2 h3] assms(4) v ramp2 by simp
    then show ?thesis using v(6) ramp2(6) by linarith
  next
    case above
    then show ?thesis using v by linarith
  qed
next
  case above
  note v = this
  from assms(1-3) show ?thesis
  proof (cases rule: transformOpenness_cases[where v = w])
    case below
    then show ?thesis using v assms by linarith
  next
    case (ramp1 r')
    then show ?thesis using v assms by linarith
  next
    case flat
    then show ?thesis using v assms by linarith
  next
    case (ramp2 r')
    then show ?thesis using v assms by linarith
  next
    case above
    then show ?thesis using v by linarith
  qed
qed

text \<open>
  Claim C2, as the code has it. For handles \<open>h0 \<le> h1 \<le> h2 \<le> h3\<close> the transform is 0
  below \<open>h0\<close>, the linear ramp from 0 to 0.75 on \<open>[h0, h1)\<close>, 0.75 on \<open>[h1, h2)\<close>,
  the linear ramp from 0.75 to 1 on \<open>[h2, h3)\<close> and 1 from \<open>h3\<close> on; it is 0.75 at
  \<open>h1\<close> when \<open>h1 < h3\<close> and at \<open>h2\<close> when \<open>h2 < h3\<close>; and it is monotonic
  non-decreasing. (Every interval is closed on the left and open on the right, so with
  \<open>h2 = h3\<close> the value at \<open>h2\<close> is 1: see the counterexample.)
\<close>

theorem transformOpenness_piecewise:
  assumes "h0 \<le> h1" "h1 \<le> h2" "h2 \<le> h3"
  shows
    "(v < h0 \<longrightarrow> transformOpenness v (h0, h1, h2, h3) = 0) \<and>
     (h0 \<le> v \<and> v < h1 \<longrightarrow>
        transformOpenness v (h0, h1, h2, h3) = ((v - h0) / (h1 - h0)) * 0.75) \<and>
     (h1 \<le> v \<and> v < h2 \<longrightarrow> transformOpenness v (h0, h1, h2, h3) = 0.75) \<and>
     (h2 \<le> v \<and> v < h3 \<longrightarrow>
        transformOpenness v (h0, h1, h2, h3) = 0.75 + ((v - h2) / (h3 - h2)) * 0.25) \<and>
     (h3 \<le> v \<longrightarrow> transformOpenness v (h0, h1, h2, h3) = 1) \<and>
     (h1 < h3 \<longrightarrow> transformOpenness h1 (h0, h1, h2, h3) = 0.75) \<and>
     (h2 < h3 \<longrightarrow> transformOpenness h2 (h0, h1, h2, h3) = 0.75) \<and>
     (\<forall>w. v \<le> w \<longrightarrow>
        transformOpenness v (h0, h1, h2, h3) \<le> transformOpenness w (h0, h1, h2, h3))"
proof (intro conjI impI allI)
  fix w assume "v \<le> w"
  then show "transformOpenness v (h0, h1, h2, h3) \<le> transformOpenness w (h0, h1, h2, h3)"
    using transformOpenness_mono assms by blast
next
  assume "v < h0"
  then show "transformOpenness v (h0, h1, h2, h3) = 0" by (rule transformOpenness_below)
next
  assume "h0 \<le> v \<and> v < h1"
  then show "transformOpenness v (h0, h1, h2, h3) = ((v - h0) / (h1 - h0)) * 0.75"
    using transformOpenness_ramp1 by blast
next
  assume "h1 \<le> v \<and> v < h2"
  then show "transformOpenness v (h0, h1, h2, h3) = 0.75"
    using transformOpenness_flat assms by blast
next
  assume "h2 \<le> v \<and> v < h3"
  then show "transformOpenness v (h0, h1, h2, h3) = 0.75 + ((v - h2) / (h3 - h2)) * 0.25"
    using transformOpenness_ramp2 assms by blast
next
  assume "h3 \<le> v"
  then show "transformOpenness v (h0, h1, h2, h3) = 1"
    using transformOpenness_above assms by blast
next
  assume "h1 < h3"
  then show "transformOpenness h1 (h0, h1, h2, h3) = 0.75" using assms by simp
next
  assume "h2 < h3"
  then show "transformOpenness h2 (h0, h1, h2, h3) = 0.75" using assms by simp
qed

text \<open>
  The claim as written asks for 0.75 at \<open>h2\<close> for every ordered 4-tuple. With the handles
  \<open>(0, 0.5, 1, 1)\<close> the value at \<open>h2 = 1\<close> is 1.
\<close>

theorem transformOpenness_piecewise_counterexample:
  "(0::real) \<le> 0.5 \<and> (0.5::real) \<le> 1 \<and> (1::real) \<le> 1 \<and>
   transformOpenness 1 (0, 0.5, 1, 1) = 1 \<and> transformOpenness 1 (0, 0.5, 1, 1) \<noteq> 0.75"
  by simp

theorem transformOpenness_piecewise_witness:
  "transformOpenness 0.1 (0.15, 0.65, 0.95, 1.0) = 0 \<and>
   transformOpenness 0.4 (0.15, 0.65, 0.95, 1.0) = 0.375 \<and>
   transformOpenness 0.8 (0.15, 0.65, 0.95, 1.0) = 0.75 \<and>
   transformOpenness 0.65 (0.15, 0.65, 0.95, 1.0) = 0.75 \<and>
   transformOpenness 0.95 (0.15, 0.65, 0.95, 1.0) = 0.75 \<and>
   transformOpenness 0.4 (0.15, 0.65, 0.95, 1.0) \<le> transformOpenness 0.97 (0.15, 0.65, 0.95, 1.0)"
  using transformOpenness_piecewise [of "0.15" "0.65" "0.95" "1.0" "0.1"]
    transformOpenness_piecewise [of "0.15" "0.65" "0.95" "1.0" "0.4"]
    transformOpenness_piecewise [of "0.15" "0.65" "0.95" "1.0" "0.8"]
  by simp

section \<open>Properties of the filter manager\<close>




section \<open>Properties of the eye selection\<close>

text \<open>
  Claim C5. When both eyes are online and \<open>leftTheta2 - rightTheta2 < 0\<close>, the independent
  query returns the combined pair \<open>(theta1, theta2)\<close> for the left and for the right eye.
\<close>

theorem independent_divergence_fallback:
  assumes "status (imageLeftEye st) = online" and "status (imageRightEye st) = online"
    and "leftTheta2 (tracking st) - rightTheta2 (tracking st) < 0"
  shows "chooseIndependentEyeThetas st =
           \<lparr> iLeftTheta1 = theta1 (tracking st), iLeftTheta2 = theta2 (tracking st),
             iRightTheta1 = theta1 (tracking st), iRightTheta2 = theta2 (tracking st) \<rparr>"
  using assms by (simp add: chooseIndependentEyeThetas_def Let_def)

text \<open>
  Claim C10. When both eyes are online, the independent query returns the combined
  \<open>theta1\<close> for both eyes, also in the convergent case, where the second angles are the
  per-eye ones; and its result does not depend on the stored per-eye \<open>theta1\<close> values:
  whatever they are replaced with, the result is the same.
\<close>

theorem independent_theta1_is_combined:
  assumes "status (imageLeftEye st) = online" and "status (imageRightEye st) = online"
  shows "iLeftTheta1 (chooseIndependentEyeThetas st) = theta1 (tracking st) \<and>
         iRightTheta1 (chooseIndependentEyeThetas st) = theta1 (tracking st) \<and>
         (if leftTheta2 (tracking st) - rightTheta2 (tracking st) \<ge> 0
          then iLeftTheta2 (chooseIndependentEyeThetas st) = leftTheta2 (tracking st) \<and>
               iRightTheta2 (chooseIndependentEyeThetas st) = rightTheta2 (tracking st)
          else iLeftTheta2 (chooseIndependentEyeThetas st) = theta2 (tracking st) \<and>
               iRightTheta2 (chooseIndependentEyeThetas st) = theta2 (tracking st)) \<and>
         chooseIndependentEyeThetas
           (st\<lparr>tracking := (tracking st)\<lparr>leftTheta1 := a, rightTheta1 := b\<rparr>\<rparr>)
           = chooseIndependentEyeThetas st"
  using assms by (simp add: chooseIndependentEyeThetas_def Let_def)

theorem independent_divergence_fallback_witness:
  "chooseIndependentEyeThetas bothOnlineDivergent =
     \<lparr> iLeftTheta1 = 1, iLeftTheta2 = 2, iRightTheta1 = 1, iRightTheta2 = 2 \<rparr>"
proof -
  have l: "status (imageLeftEye bothOnlineDivergent) = online"
    and r: "status (imageRightEye bothOnlineDivergent) = online"
    and d: "leftTheta2 (tracking bothOnlineDivergent) - rightTheta2 (tracking bothOnlineDivergent) < 0"
    by (simp_all add: bothOnlineDivergent_def exampleTracking_def)
  show ?thesis
    using independent_divergence_fallback [OF l r d]
    by (simp add: bothOnlineDivergent_def exampleTracking_def)
qed

theorem independent_theta1_is_combined_witness:
  "iLeftTheta1 (chooseIndependentEyeThetas bothOnlineConvergent) = 1 \<and>
   iRightTheta1 (chooseIndependentEyeThetas bothOnlineConvergent) = 1 \<and>
   iLeftTheta2 (chooseIndependentEyeThetas bothOnlineConvergent) = 6 \<and>
   iRightTheta2 (chooseIndependentEyeThetas bothOnlineConvergent) = 4 \<and>
   chooseIndependentEyeThetas
     (bothOnlineConvergent\<lparr>tracking := (tracking bothOnlineConvergent)\<lparr>leftTheta1 := 30, rightTheta1 := 40\<rparr>\<rparr>)
     = chooseIndependentEyeThetas bothOnlineConvergent"
proof -
  have l: "status (imageLeftEye bothOnlineConvergent) = online"
    and r: "status (imageRightEye bothOnlineConvergent) = online"
    by (simp_all add: bothOnlineConvergent_def bothOnlineDivergent_def)
  show ?thesis
    using independent_theta1_is_combined [OF l r, of 30 40]
    by (simp add: bothOnlineConvergent_def bothOnlineDivergent_def exampleTracking_def
        chooseIndependentEyeThetas_def Let_def)
qed

section \<open>Properties of the blink release\<close>

text \<open>The blink-release block on its own.\<close>

lemma blinkRelease_closed_at:
  "T \<le> lc \<Longrightarrow> T \<le> now \<Longrightarrow> T \<le> snd (blinkRelease d now lc v)"
  by (simp add: blinkRelease_def)

lemma blinkRelease_held:
  "T \<le> lc \<Longrightarrow> now \<le> T + d \<Longrightarrow> fst (blinkRelease d now lc v) = 0"
  by (simp add: blinkRelease_def)

lemma blinkRelease_open:
  "lc + d < now \<Longrightarrow> fst (blinkRelease d now lc v) = v"
  by (simp add: blinkRelease_def)

lemma blinkRelease_no_latch:
  "v \<noteq> 0 \<Longrightarrow> snd (blinkRelease d now lc v) = lc"
  by (simp add: blinkRelease_def)

text \<open>
  The endpoint update and the angle path of a pass touch no closed-at timestamp and
  dispatch no openness.
\<close>

lemma eyeMovement_closed_at:
  "lastClosedTimestampCombined (snd (updateOscEndpoint cfg s)) = lastClosedTimestampCombined s"
  "lastClosedTimestampLeft (snd (updateOscEndpoint cfg s)) = lastClosedTimestampLeft s"
  "lastClosedTimestampRight (snd (updateOscEndpoint cfg s)) = lastClosedTimestampRight s"
  "lastClosedTimestampCombined (snd (nativeEyeMovement cfg st s)) = lastClosedTimestampCombined s"
  "lastClosedTimestampCombined (snd (vrcftV1EyeMovement cfg st s)) = lastClosedTimestampCombined s"
  "lastClosedTimestampLeft (snd (vrcftV1EyeMovement cfg st s)) = lastClosedTimestampLeft s"
  "lastClosedTimestampRight (snd (vrcftV1EyeMovement cfg st s)) = lastClosedTimestampRight s"
  "lastClosedTimestampCombined (snd (vrcftV2EyeMovement cfg st s)) = lastClosedTimestampCombined s"
  "lastClosedTimestampLeft (snd (vrcftV2EyeMovement cfg st s)) = lastClosedTimestampLeft s"
  "lastClosedTimestampRight (snd (vrcftV2EyeMovement cfg st s)) = lastClosedTimestampRight s"
  by (simp_all add: updateOscEndpoint_def nativeEyeMovement_def vrcftV1EyeMovement_def
      vrcftV2EyeMovement_def Let_def)

lemma eyeMovement_closed_at_native:
  "lastClosedTimestampLeft (snd (nativeEyeMovement cfg st s)) = lastClosedTimestampLeft s"
  "lastClosedTimestampRight (snd (nativeEyeMovement cfg st s)) = lastClosedTimestampRight s"
  by (simp_all add: nativeEyeMovement_def Let_def)

lemma openness_sent_simps:
  "combinedOpennessSent [] = []" "indOpennessSent [] = []"
  "combinedOpennessSent (xs @ ys) = combinedOpennessSent xs @ combinedOpennessSent ys"
  "indOpennessSent (xs @ ys) = indOpennessSent xs @ indOpennessSent ys"
  "combinedOpennessSent (c # cs) =
     (case combinedOpennessOf c of None \<Rightarrow> [] | Some d \<Rightarrow> [d]) @ combinedOpennessSent cs"
  "indOpennessSent (c # cs) =
     (case indOpennessOf c of None \<Rightarrow> [] | Some d \<Rightarrow> [d]) @ indOpennessSent cs"
  by (simp_all add: combinedOpennessSent_def indOpennessSent_def List.map_filter_def
      split: option.split)

lemma eyeMovement_no_openness:
  "combinedOpennessSent (fst (updateOscEndpoint cfg s)) = []"
  "indOpennessSent (fst (updateOscEndpoint cfg s)) = []"
  "combinedOpennessSent (fst (nativeEyeMovement cfg st s)) = []"
  "indOpennessSent (fst (nativeEyeMovement cfg st s)) = []"
  "combinedOpennessSent (fst (vrcftV1EyeMovement cfg st s)) = []"
  "indOpennessSent (fst (vrcftV1EyeMovement cfg st s)) = []"
  "combinedOpennessSent (fst (vrcftV2EyeMovement cfg st s)) = []"
  "indOpennessSent (fst (vrcftV2EyeMovement cfg st s)) = []"
  by (simp_all add: updateOscEndpoint_def nativeEyeMovement_def vrcftV1EyeMovement_def
      vrcftV2EyeMovement_def Let_def openness_sent_simps)

lemma within_tolerance_swap: "\<bar>a - b\<bar> * 1000 < 1 \<Longrightarrow> \<bar>b - a\<bar> * 1000 \<le> (1::real)"
  by (simp add: abs_minus_commute)

text \<open>
  One pass of the service on a channel. When the pass computes the channel, its closed-at
  timestamp and its output are those of the blink-release block on the transformed
  reading; when it does not, the closed-at timestamp stays.
\<close>

lemma startTrackingTransmission_closed_at:
  assumes "channelUsed ch cfg"
  shows "channelClosedAt ch (snd (startTrackingTransmission cfg st now s)) =
     snd (blinkRelease (blinkReleaseDelayMs cfg) now (channelClosedAt ch s) (channelReading ch cfg st))"
proof (cases "currentMode cfg")
  case ModeNone
  then show ?thesis using assms by (cases ch) simp_all
next
  case ModeNative
  show ?thesis
    using assms
    by (cases ch)
      (simp_all add: startTrackingTransmission_def ModeNative split_beta Let_def
        eyeMovement_closed_at eyeMovement_closed_at_native nativeEyeOpenness_def)
next
  case ModeVrcftV1
  show ?thesis
    using assms
    by (cases ch)
      (simp_all add: startTrackingTransmission_def ModeVrcftV1 split_beta Let_def
        eyeMovement_closed_at vrcftV1EyeOpenness_def)
next
  case ModeVrcftV2
  show ?thesis
    using assms
    by (cases ch)
      (simp_all add: startTrackingTransmission_def ModeVrcftV2 split_beta Let_def
        eyeMovement_closed_at vrcftV2EyeOpenness_def)
qed

lemma startTrackingTransmission_closed_at_unused:
  assumes "\<not> channelUsed ch cfg"
  shows "channelClosedAt ch (snd (startTrackingTransmission cfg st now s)) = channelClosedAt ch s"
proof (cases "currentMode cfg")
  case ModeNone
  then show ?thesis
    by (cases ch) (simp_all add: startTrackingTransmission_def split_beta eyeMovement_closed_at)
next
  case ModeNative
  show ?thesis
    using assms
    by (cases ch)
      (simp_all add: startTrackingTransmission_def ModeNative split_beta Let_def
        eyeMovement_closed_at eyeMovement_closed_at_native nativeEyeOpenness_def)
next
  case ModeVrcftV1
  show ?thesis
    using assms
    by (cases ch)
      (simp_all add: startTrackingTransmission_def ModeVrcftV1 split_beta Let_def
        eyeMovement_closed_at vrcftV1EyeOpenness_def)
next
  case ModeVrcftV2
  show ?thesis
    using assms
    by (cases ch)
      (simp_all add: startTrackingTransmission_def ModeVrcftV2 split_beta Let_def
        eyeMovement_closed_at vrcftV2EyeOpenness_def)
qed

lemma startTrackingTransmission_outputs:
  assumes "channelUsed ch cfg"
  shows "channelOutputs ch cfg (startTrackingTransmission cfg st now s)
     (fst (blinkRelease (blinkReleaseDelayMs cfg) now (channelClosedAt ch s) (channelReading ch cfg st)))"
proof (cases "currentMode cfg")
  case ModeNone
  then show ?thesis using assms by (cases ch) simp_all
next
  case ModeNative
  show ?thesis
    using assms
    by (cases ch)
      (auto simp add: channelOutputs_def startTrackingTransmission_def ModeNative split_beta
        Let_def openness_sent_simps eyeMovement_no_openness eyeMovement_closed_at nativeEyeOpenness_def
        changedOpenness_def split: option.splits)
next
  case ModeVrcftV1
  show ?thesis
    using assms
    by (cases ch)
      (auto simp add: channelOutputs_def startTrackingTransmission_def ModeVrcftV1 split_beta
        Let_def openness_sent_simps eyeMovement_no_openness eyeMovement_closed_at vrcftV1EyeOpenness_def
        changedOpenness_def changedIndOpenness_def isEqualOpenness_def EPSILON_def
        intro: within_tolerance_swap split: option.splits)
next
  case ModeVrcftV2
  show ?thesis
    using assms
    by (cases ch)
      (auto simp add: channelOutputs_def startTrackingTransmission_def ModeVrcftV2 split_beta
        Let_def openness_sent_simps eyeMovement_no_openness eyeMovement_closed_at vrcftV2EyeOpenness_def
        changedOpenness_def changedIndOpenness_def isEqualOpenness_def EPSILON_def
        intro: within_tolerance_swap split: option.splits)
qed

lemma startTrackingTransmission_unused:
  assumes "\<not> channelUsed ch cfg"
  shows "channelSent ch (fst (startTrackingTransmission cfg st now s)) = []"
proof (cases "currentMode cfg")
  case ModeNone
  then show ?thesis
    by (cases ch)
      (simp_all add: startTrackingTransmission_def split_beta eyeMovement_no_openness)
next
  case ModeNative
  show ?thesis
    using assms
    by (cases ch)
      (simp_all add: startTrackingTransmission_def ModeNative split_beta Let_def
        openness_sent_simps eyeMovement_no_openness nativeEyeOpenness_def)
next
  case ModeVrcftV1
  show ?thesis
    using assms
    by (cases ch)
      (simp_all add: startTrackingTransmission_def ModeVrcftV1 split_beta Let_def
        openness_sent_simps eyeMovement_no_openness vrcftV1EyeOpenness_def)
next
  case ModeVrcftV2
  show ?thesis
    using assms
    by (cases ch)
      (simp_all add: startTrackingTransmission_def ModeVrcftV2 split_beta Let_def
        openness_sent_simps eyeMovement_no_openness vrcftV2EyeOpenness_def)
qed

text \<open>
  A sequence of passes. The last pass of a sequence starts from the state its
  predecessors leave. From a closed-at timestamp \<open>\<ge> T\<close>, passes not earlier than \<open>T\<close>
  leave one \<open>\<ge> T\<close>; and passes that read no transformed 0 on the channel leave it as it
  was.
\<close>

lemma transmissionRun_snoc:
  "transmissionRun (passes @ [(cfg, st, now)]) s =
     (fst (transmissionRun passes s) @
        fst (startTrackingTransmission cfg st now (snd (transmissionRun passes s))),
      snd (startTrackingTransmission cfg st now (snd (transmissionRun passes s))))"
  by (induction passes arbitrary: s) (auto simp: split_beta Let_def)

lemma transmissionRun_closed_at_lower:
  assumes "\<forall>p \<in> set passes. T \<le> snd (snd p)" and "T \<le> channelClosedAt ch s"
  shows "T \<le> channelClosedAt ch (snd (transmissionRun passes s))"
  using assms
proof (induction passes arbitrary: s)
  case Nil
  then show ?case by simp
next
  case (Cons p passes)
  obtain cfg st now where p: "p = (cfg, st, now)" by (cases p)
  have now: "T \<le> now" using Cons.prems(1) p by simp
  have "T \<le> channelClosedAt ch (snd (startTrackingTransmission cfg st now s))"
  proof (cases "channelUsed ch cfg")
    case True
    show ?thesis
      unfolding startTrackingTransmission_closed_at[OF True]
      by (rule blinkRelease_closed_at[OF Cons.prems(2) now])
  next
    case False
    show ?thesis
      unfolding startTrackingTransmission_closed_at_unused[OF False] by (rule Cons.prems(2))
  qed
  then have "T \<le> channelClosedAt ch
      (snd (transmissionRun passes (snd (startTrackingTransmission cfg st now s))))"
    using Cons.IH Cons.prems(1) by simp
  then show ?case by (simp add: p split_beta Let_def)
qed

lemma transmissionRun_closed_at_kept:
  assumes "\<forall>p \<in> set passes. channelUsed ch (fst p) \<longrightarrow> channelReading ch (fst p) (fst (snd p)) \<noteq> 0"
  shows "channelClosedAt ch (snd (transmissionRun passes s)) = channelClosedAt ch s"
  using assms
proof (induction passes arbitrary: s)
  case Nil
  then show ?case by simp
next
  case (Cons p passes)
  obtain cfg st now where p: "p = (cfg, st, now)" by (cases p)
  have "channelClosedAt ch (snd (startTrackingTransmission cfg st now s)) = channelClosedAt ch s"
  proof (cases "channelUsed ch cfg")
    case True
    then have "channelReading ch cfg st \<noteq> 0" using Cons.prems p by simp
    then show ?thesis
      unfolding startTrackingTransmission_closed_at[OF True] by (rule blinkRelease_no_latch)
  next
    case False
    show ?thesis by (rule startTrackingTransmission_closed_at_unused[OF False])
  qed
  moreover have "channelClosedAt ch
      (snd (transmissionRun passes (snd (startTrackingTransmission cfg st now s))))
      = channelClosedAt ch (snd (startTrackingTransmission cfg st now s))"
    using Cons.IH Cons.prems by simp
  ultimately show ?case by (simp add: p split_beta Let_def)
qed

text \<open>
  Claim C3, as the code has it. Let a pass of \<^verbatim>\<open>startTrackingTransmission\<close> at time \<open>T\<close>
  compute a channel (combined, left or right) and find its transformed openness 0, from
  whatever state; let \<open>passes\<close> be the passes that follow, none earlier than \<open>T\<close>, in
  whatever modes and configurations; and take the pass number \<open>i\<close> of them, at time
  \<open>now\<close>. The closing pass outputs 0. If the pass computes the channel and \<open>now\<close> is at
  most \<open>T + blinkReleaseDelayMs\<close>, it outputs 0 on the channel whatever it reads. If it
  computes the channel, \<open>now\<close> is after \<open>T + blinkReleaseDelayMs\<close> and no pass in between
  has read a transformed 0 on the channel, it outputs its transformed reading unmodified.
  If it does not compute the channel, it dispatches nothing on it. (The test is
  \<^verbatim>\<open>now <= lastClosed + blinkReleaseDelayMs\<close>: the pass at exactly
  \<open>T + blinkReleaseDelayMs\<close> is still held at 0.)
\<close>

theorem blink_release_hysteresis:
  assumes "channelUsed ch cfg0" and "channelReading ch cfg0 st0 = 0"
    and "\<forall>p \<in> set passes. T \<le> snd (snd p)"
    and "i < length passes" and "passes ! i = (cfg, st, now)"
  shows
    "channelOutputs ch cfg0 (startTrackingTransmission cfg0 st0 T s0) 0 \<and>
     (channelUsed ch cfg \<and> now \<le> T + blinkReleaseDelayMs cfg \<longrightarrow>
        channelOutputs ch cfg
          (startTrackingTransmission cfg st now
             (snd (transmissionRun ((cfg0, st0, T) # take i passes) s0))) 0) \<and>
     (channelUsed ch cfg \<and>
      (\<forall>p \<in> set (take i passes).
          channelUsed ch (fst p) \<longrightarrow> channelReading ch (fst p) (fst (snd p)) \<noteq> 0) \<and>
      T + blinkReleaseDelayMs cfg < now \<longrightarrow>
        channelOutputs ch cfg
          (startTrackingTransmission cfg st now
             (snd (transmissionRun ((cfg0, st0, T) # take i passes) s0)))
          (channelReading ch cfg st)) \<and>
     (\<not> channelUsed ch cfg \<longrightarrow>
        channelSent ch
          (fst (startTrackingTransmission cfg st now
                  (snd (transmissionRun ((cfg0, st0, T) # take i passes) s0)))) = [])"
proof -
  let ?s1 = "snd (startTrackingTransmission cfg0 st0 T s0)"
  let ?s = "snd (transmissionRun (take i passes) ?s1)"
  have run: "snd (transmissionRun ((cfg0, st0, T) # take i passes) s0) = ?s"
    by (simp add: split_beta Let_def)
  have closed: "channelClosedAt ch ?s1 = T"
    unfolding startTrackingTransmission_closed_at[OF assms(1)] using assms(2)
    by (simp add: blinkRelease_def)
  have first: "channelOutputs ch cfg0 (startTrackingTransmission cfg0 st0 T s0) 0"
    using startTrackingTransmission_outputs[OF assms(1), of st0 T s0] assms(2)
    by (simp add: blinkRelease_def)
  have later: "\<forall>p \<in> set (take i passes). T \<le> snd (snd p)"
    using assms(3) by (meson in_set_takeD)
  have lower: "T \<le> channelClosedAt ch ?s"
    using transmissionRun_closed_at_lower[OF later, of ch ?s1] closed by simp
  have held: "channelOutputs ch cfg (startTrackingTransmission cfg st now ?s) 0"
    if used: "channelUsed ch cfg" and before: "now \<le> T + blinkReleaseDelayMs cfg"
    using startTrackingTransmission_outputs[OF used, of st now ?s]
      blinkRelease_held[OF lower before]
    by simp
  have released: "channelOutputs ch cfg (startTrackingTransmission cfg st now ?s)
      (channelReading ch cfg st)"
    if used: "channelUsed ch cfg"
      and quiet: "\<forall>p \<in> set (take i passes).
          channelUsed ch (fst p) \<longrightarrow> channelReading ch (fst p) (fst (snd p)) \<noteq> 0"
      and after: "T + blinkReleaseDelayMs cfg < now"
  proof -
    have "channelClosedAt ch ?s = T"
      using transmissionRun_closed_at_kept[OF quiet, of ?s1] closed by simp
    then have "fst (blinkRelease (blinkReleaseDelayMs cfg) now (channelClosedAt ch ?s)
        (channelReading ch cfg st)) = channelReading ch cfg st"
      using after by (simp add: blinkRelease_open)
    then show ?thesis
      using startTrackingTransmission_outputs[OF used, of st now ?s] by simp
  qed
  have unused: "channelSent ch (fst (startTrackingTransmission cfg st now ?s)) = []"
    if "\<not> channelUsed ch cfg"
    by (rule startTrackingTransmission_unused[OF that])
  show ?thesis
    unfolding run using first held released unused by blast
qed

text \<open>
  The example: native mode with openness tracking on, a first pass at time 1000 that finds
  the eyes shut, and what a later pass that finds them open does.
\<close>

lemma opennessConfig_fields:
  "currentMode opennessConfig = ModeNative"
  "currentEndpoint opennessConfig = ''127.0.0.1:9000''"
  "activeEyeTracking opennessConfig"
  "activeOpennessTracking opennessConfig"
  "\<not> independentEyes opennessConfig"
  "blinkReleaseDelayMs opennessConfig = 25"
  "opennessSliderHandles opennessConfig = (0.15, 0.65, 0.95, 1.0)"
  "pitchOffset opennessConfig = 0"
  "verticalExaggeration opennessConfig = 1"
  "horizontalExaggeration opennessConfig = 1"
  "vrcNativeNeutralValue opennessConfig = 0.5"
  by (simp_all add: opennessConfig_def nativeConfig_def initialState_def currentMode_def
      currentEndpoint_def)

lemma example_status_fields:
  "chooseCombinedEyeThetas eyesShut = \<lparr>cTheta1 = 1, cTheta2 = 2\<rparr>"
  "chooseCombinedEyeThetas bothOnlineDivergent = \<lparr>cTheta1 = 1, cTheta2 = 2\<rparr>"
  "chooseCombinedEyeOpenness eyesShut = 0.1"
  "chooseCombinedEyeOpenness bothOnlineDivergent = 0.75"
  by (simp_all add: chooseCombinedEyeThetas_def chooseCombinedEyeOpenness_def eyesShut_def
      bothOnlineDivergent_def exampleTracking_def)

lemma example_first_pass:
  "startTrackingTransmission opennessConfig eyesShut 1000 initialTransmissionState =
     ([UpdateOscClient ''127.0.0.1:9000'',
       SendNativeCombinedPitchYaw \<lparr>cTheta1 = 1, cTheta2 = 2\<rparr> 0 1 1,
       SendNativeEyeOpenness 0 0.5],
      initialTransmissionState
        \<lparr>previousNativeCombinedThetas := Some \<lparr>cTheta1 = 1, cTheta2 = 2\<rparr>,
          previousNativeOpenness := Some 0,
          previousOscEndpoint := Some ''127.0.0.1:9000'',
          lastClosedTimestampCombined := 1000\<rparr>)"
  by (simp add: startTrackingTransmission_def updateOscEndpoint_def
      nativeEyeMovement_def nativeEyeOpenness_def blinkRelease_def
      changedOpenness_def changedCombinedThetas_def opennessConfig_fields example_status_fields
      initialTransmissionState_def Let_def)

lemma example_later_pass:
  "startTrackingTransmission opennessConfig bothOnlineDivergent now
     (initialTransmissionState
        \<lparr>previousNativeCombinedThetas := Some \<lparr>cTheta1 = 1, cTheta2 = 2\<rparr>,
          previousNativeOpenness := Some 0,
          previousOscEndpoint := Some ''127.0.0.1:9000'',
          lastClosedTimestampCombined := 1000\<rparr>) =
     (if now \<le> 1025 then
        ([], initialTransmissionState
          \<lparr>previousNativeCombinedThetas := Some \<lparr>cTheta1 = 1, cTheta2 = 2\<rparr>,
            previousNativeOpenness := Some 0,
            previousOscEndpoint := Some ''127.0.0.1:9000'',
            lastClosedTimestampCombined := 1000\<rparr>)
      else
        ([SendNativeEyeOpenness 0.75 0.5], initialTransmissionState
          \<lparr>previousNativeCombinedThetas := Some \<lparr>cTheta1 = 1, cTheta2 = 2\<rparr>,
            previousNativeOpenness := Some 0.75,
            previousOscEndpoint := Some ''127.0.0.1:9000'',
            lastClosedTimestampCombined := 1000\<rparr>))"
  by (simp add: startTrackingTransmission_def updateOscEndpoint_def
      nativeEyeMovement_def nativeEyeOpenness_def blinkRelease_def
      changedOpenness_def changedCombinedThetas_def isEqualCombinedThetas_def EPSILON_def
      opennessConfig_fields example_status_fields
      initialTransmissionState_def Let_def)

text \<open>
  The claim as written releases the channel at \<open>T + blinkReleaseDelayMs\<close>. In native mode
  with openness tracking on and the default delay of 25 ms, let the pass at time 1000
  find the eyes shut (raw openness 0.1, transformed 0) and the pass at time 1025 find them
  open (raw openness 0.75, transformed 0.75): the two passes dispatch the openness 0 once
  and never 0.75.
\<close>

theorem blink_release_hysteresis_counterexample:
  "channelUsed ChannelCombined opennessConfig \<and>
   channelReading ChannelCombined opennessConfig eyesShut = 0 \<and>
   (1000::real) + blinkReleaseDelayMs opennessConfig \<le> 1025 \<and>
   channelReading ChannelCombined opennessConfig bothOnlineDivergent = 0.75 \<and>
   channelSent ChannelCombined
     (fst (transmissionRun
        [(opennessConfig, eyesShut, 1000), (opennessConfig, bothOnlineDivergent, 1025)]
        initialTransmissionState)) = [0] \<and>
   \<not> channelOutputs ChannelCombined opennessConfig
       (startTrackingTransmission opennessConfig bothOnlineDivergent 1025
          (snd (transmissionRun [(opennessConfig, eyesShut, 1000)] initialTransmissionState)))
       (channelReading ChannelCombined opennessConfig bothOnlineDivergent)"
  by (simp add: example_first_pass example_later_pass channelOutputs_def openness_sent_simps
      opennessConfig_fields example_status_fields)

text \<open>
  With the eyes open again from time 1010 on, the pass at time 1020 is held at 0 and the
  pass at time 1030 outputs 0.75.
\<close>

theorem blink_release_hysteresis_witness:
  "channelOutputs ChannelCombined opennessConfig
     (startTrackingTransmission opennessConfig bothOnlineDivergent 1020
        (snd (transmissionRun
           [(opennessConfig, eyesShut, 1000), (opennessConfig, bothOnlineDivergent, 1010)]
           initialTransmissionState))) 0 \<and>
   channelOutputs ChannelCombined opennessConfig
     (startTrackingTransmission opennessConfig bothOnlineDivergent 1030
        (snd (transmissionRun
           [(opennessConfig, eyesShut, 1000), (opennessConfig, bothOnlineDivergent, 1010),
            (opennessConfig, bothOnlineDivergent, 1020)]
           initialTransmissionState))) 0.75 \<and>
   channelSent ChannelCombined
     (fst (transmissionRun
        [(opennessConfig, eyesShut, 1000), (opennessConfig, bothOnlineDivergent, 1010),
         (opennessConfig, bothOnlineDivergent, 1020), (opennessConfig, bothOnlineDivergent, 1030)]
        initialTransmissionState)) = [0, 0.75]"
proof -
  let ?passes = "[(opennessConfig, bothOnlineDivergent, 1010::real),
      (opennessConfig, bothOnlineDivergent, 1020), (opennessConfig, bothOnlineDivergent, 1030)]"
  have used: "channelUsed ChannelCombined opennessConfig"
    and shut: "channelReading ChannelCombined opennessConfig eyesShut = 0"
    and opened: "channelReading ChannelCombined opennessConfig bothOnlineDivergent = 0.75"
    by (simp_all add: opennessConfig_fields example_status_fields)
  have later: "\<forall>p \<in> set ?passes. (1000::real) \<le> snd (snd p)"
    by simp
  have quiet: "\<forall>p \<in> set (take 2 ?passes).
      channelUsed ChannelCombined (fst p) \<longrightarrow>
      channelReading ChannelCombined (fst p) (fst (snd p)) \<noteq> 0"
    by (simp add: opennessConfig_fields example_status_fields numeral_2_eq_2)
  have sent: "channelSent ChannelCombined
     (fst (transmissionRun
        [(opennessConfig, eyesShut, 1000), (opennessConfig, bothOnlineDivergent, 1010),
         (opennessConfig, bothOnlineDivergent, 1020), (opennessConfig, bothOnlineDivergent, 1030)]
        initialTransmissionState)) = [0, 0.75]"
    by (simp add: example_first_pass example_later_pass openness_sent_simps)
  show ?thesis
    using
      blink_release_hysteresis [OF used shut later, of 1 opennessConfig bothOnlineDivergent 1020
        initialTransmissionState]
      blink_release_hysteresis [OF used shut later, of 2 opennessConfig bothOnlineDivergent 1030
        initialTransmissionState]
      used quiet sent
    by (simp add: opennessConfig_fields example_status_fields numeral_2_eq_2)
qed

section \<open>Properties of the change suppression\<close>

lemma sent_simps:
  "combinedThetasSent [] = []" "indThetasSent [] = []"
  "combinedThetasSent (xs @ ys) = combinedThetasSent xs @ combinedThetasSent ys"
  "indThetasSent (xs @ ys) = indThetasSent xs @ indThetasSent ys"
  "combinedThetasSent (c # cs) =
     (case combinedThetasOf c of None \<Rightarrow> [] | Some d \<Rightarrow> [d]) @ combinedThetasSent cs"
  "indThetasSent (c # cs) =
     (case indThetasOf c of None \<Rightarrow> [] | Some d \<Rightarrow> [d]) @ indThetasSent cs"
  by (simp_all add: combinedThetasSent_def indThetasSent_def List.map_filter_def split: option.split)

lemma updateOscEndpoint_thetas:
  "combinedThetasSent (fst (updateOscEndpoint cfg s)) = [] \<and>
   indThetasSent (fst (updateOscEndpoint cfg s)) = [] \<and>
   previousCombinedThetas m (snd (updateOscEndpoint cfg s)) = previousCombinedThetas m s \<and>
   previousIndependentThetas m (snd (updateOscEndpoint cfg s)) = previousIndependentThetas m s"
  by (cases m) (simp_all add: updateOscEndpoint_def sent_simps)

lemma nativeEyeOpenness_thetas:
  "combinedThetasSent (fst (nativeEyeOpenness cfg st now s)) = [] \<and>
   indThetasSent (fst (nativeEyeOpenness cfg st now s)) = [] \<and>
   previousCombinedThetas m (snd (nativeEyeOpenness cfg st now s)) = previousCombinedThetas m s \<and>
   previousIndependentThetas m (snd (nativeEyeOpenness cfg st now s)) = previousIndependentThetas m s"
  by (cases m) (simp_all add: nativeEyeOpenness_def sent_simps Let_def split_beta)

lemma vrcftV1EyeOpenness_thetas:
  "combinedThetasSent (fst (vrcftV1EyeOpenness cfg st now s)) = [] \<and>
   indThetasSent (fst (vrcftV1EyeOpenness cfg st now s)) = [] \<and>
   previousCombinedThetas m (snd (vrcftV1EyeOpenness cfg st now s)) = previousCombinedThetas m s \<and>
   previousIndependentThetas m (snd (vrcftV1EyeOpenness cfg st now s)) = previousIndependentThetas m s"
  by (cases m) (simp_all add: vrcftV1EyeOpenness_def sent_simps Let_def split_beta)

lemma vrcftV2EyeOpenness_thetas:
  "combinedThetasSent (fst (vrcftV2EyeOpenness cfg st now s)) = [] \<and>
   indThetasSent (fst (vrcftV2EyeOpenness cfg st now s)) = [] \<and>
   previousCombinedThetas m (snd (vrcftV2EyeOpenness cfg st now s)) = previousCombinedThetas m s \<and>
   previousIndependentThetas m (snd (vrcftV2EyeOpenness cfg st now s)) = previousIndependentThetas m s"
  by (cases m) (simp_all add: vrcftV2EyeOpenness_def sent_simps Let_def split_beta)

text \<open>
  The angle path of a pass, in any mode but off: what is dispatched and what the caches of
  the current mode hold afterwards.
\<close>

lemma startTrackingTransmission_thetas:
  assumes "currentMode cfg \<noteq> ModeNone" and "activeEyeTracking cfg"
  shows
    "(independentEyes cfg \<longrightarrow>
        (if changedIndThetas (previousIndependentThetas (currentMode cfg) s)
              (chooseIndependentEyeThetas st)
         then indThetasSent (fst (startTrackingTransmission cfg st now s))
                = [chooseIndependentEyeThetas st] \<and>
              previousIndependentThetas (currentMode cfg)
                (snd (startTrackingTransmission cfg st now s)) = Some (chooseIndependentEyeThetas st)
         else indThetasSent (fst (startTrackingTransmission cfg st now s)) = [] \<and>
              previousIndependentThetas (currentMode cfg)
                (snd (startTrackingTransmission cfg st now s))
                = previousIndependentThetas (currentMode cfg) s)) \<and>
     (\<not> independentEyes cfg \<longrightarrow>
        (if changedCombinedThetas (previousCombinedThetas (currentMode cfg) s)
              (chooseCombinedEyeThetas st)
         then combinedThetasSent (fst (startTrackingTransmission cfg st now s))
                = [chooseCombinedEyeThetas st] \<and>
              previousCombinedThetas (currentMode cfg)
                (snd (startTrackingTransmission cfg st now s)) = Some (chooseCombinedEyeThetas st)
         else combinedThetasSent (fst (startTrackingTransmission cfg st now s)) = [] \<and>
              previousCombinedThetas (currentMode cfg)
                (snd (startTrackingTransmission cfg st now s))
                = previousCombinedThetas (currentMode cfg) s))"
proof (cases "currentMode cfg")
  case ModeNone
  then show ?thesis using assms by simp
next
  case ModeNative
  show ?thesis
    using assms(2) updateOscEndpoint_thetas[of cfg s ModeNative]
      nativeEyeOpenness_thetas[of cfg st now _ ModeNative]
    by (simp add: startTrackingTransmission_def ModeNative split_beta Let_def sent_simps
        nativeEyeMovement_def)
next
  case ModeVrcftV1
  show ?thesis
    using assms(2) updateOscEndpoint_thetas[of cfg s ModeVrcftV1]
      vrcftV1EyeOpenness_thetas[of cfg st now _ ModeVrcftV1]
    by (simp add: startTrackingTransmission_def ModeVrcftV1 split_beta Let_def sent_simps
        vrcftV1EyeMovement_def)
next
  case ModeVrcftV2
  show ?thesis
    using assms(2) updateOscEndpoint_thetas[of cfg s ModeVrcftV2]
      vrcftV2EyeOpenness_thetas[of cfg st now _ ModeVrcftV2]
    by (simp add: startTrackingTransmission_def ModeVrcftV2 split_beta Let_def sent_simps
        vrcftV2EyeMovement_def)
qed


text \<open>
  Two consecutive passes on the combined path: when the first computation was suppressed,
  the second is compared with the value dispatched before both, not with the first
  computation.
\<close>

lemma change_suppression_after_suppressed:
  assumes "currentMode cfg \<noteq> ModeNone" and "activeEyeTracking cfg" and "\<not> independentEyes cfg"
    and "previousCombinedThetas (currentMode cfg) s = Some prevC"
    and "isEqualCombinedThetas (chooseCombinedEyeThetas st1) prevC"
  shows "combinedThetasSent
           (fst (startTrackingTransmission cfg st2 now2
                  (snd (startTrackingTransmission cfg st1 now1 s))))
         = (if isEqualCombinedThetas (chooseCombinedEyeThetas st2) prevC then []
            else [chooseCombinedEyeThetas st2])"
proof -
  have first: "previousCombinedThetas (currentMode cfg)
      (snd (startTrackingTransmission cfg st1 now1 s)) = Some prevC"
    using startTrackingTransmission_thetas[OF assms(1,2), of s st1 now1] assms(3-5)
    by (simp add: changedCombinedThetas_def)
  show ?thesis
    using startTrackingTransmission_thetas[OF assms(1,2),
        of "snd (startTrackingTransmission cfg st1 now1 s)" st2 now2] assms(3) first
    by (simp add: changedCombinedThetas_def)
qed












section \<open>Properties of the frame gates\<close>

text \<open>
  Claim C7, as the code has it. With both eyes online, both holding a frame timestamp,
  and the synced-update policy off, a call of \<^verbatim>\<open>runTracking\<close> (not re-entered) proceeds
  exactly when both timestamps are non-zero, at least the tracking interval has elapsed
  since the last-processed timestamp of each eye, both frame buffers are non-empty, and
  the frame timestamp of at least one eye differs from its last-processed timestamp.
  It then feeds both frames to the models, and advances the last-processed timestamp of
  each eye whose frame timestamp differs from it. So an eye whose own gates pass is
  processed whether or not the other eye has a new frame, but only if the other eye also
  has a non-empty frame and has waited the tracking interval.
\<close>

theorem unsynced_gates:
  assumes "\<not> ongoingTracking s" and "\<not> syncedEyeUpdates cfg"
    and "status (imageLeftEye st) = online" and "status (imageRightEye st) = online"
    and "timestamp (imageLeftEye st) = Some lt" and "timestamp (imageRightEye st) = Some rt"
  shows
    "(if lt \<noteq> 0 \<and> rt \<noteq> 0 \<and>
         now - previousLeftTimestamp s \<ge> trackingRate cfg \<and>
         now - previousRightTimestamp s \<ge> trackingRate cfg \<and>
         trim (frame (imageLeftEye st)) \<noteq> [] \<and> trim (frame (imageRightEye st)) \<noteq> [] \<and>
         (lt \<noteq> previousLeftTimestamp s \<or> rt \<noteq> previousRightTimestamp s)
      then
        map_option (\<lambda>p. (proceed p, validLeft p, validRight p))
          (fst (runTracking cfg st now later s)) = Some (True, True, True) \<and>
        previousLeftTimestamp (snd (runTracking cfg st now later s)) = lt \<and>
        previousRightTimestamp (snd (runTracking cfg st now later s)) = rt
      else
        map_option (\<lambda>p. (proceed p, validLeft p, validRight p))
          (fst (runTracking cfg st now later s)) = Some (False, False, False) \<and>
        previousLeftTimestamp (snd (runTracking cfg st now later s)) = previousLeftTimestamp s \<and>
        previousRightTimestamp (snd (runTracking cfg st now later s)) = previousRightTimestamp s)"
  using assms by (simp add: runTracking_def frameGates_def Let_def split_beta)

text \<open>
  The claim as written lets the left eye be processed on its own gates alone. Here both
  eyes are online, unsynced, with the default interval of 25 ms. The right frame of time
  1005 has just been processed, while the left frame was still the one of time 900; now,
  at time 1010, a new left frame of time 1008 is there. The left eye has a new frame, has
  waited 110 ms and has a non-empty frame, but the right eye was processed 5 ms ago: the
  call does not proceed and the left frame stays unprocessed.
\<close>

theorem unsynced_gates_counterexample:
  "status (imageLeftEye newLeftFrame) = online \<and>
   status (imageRightEye newLeftFrame) = online \<and>
   \<not> syncedEyeUpdates initialState \<and>
   timestamp (imageLeftEye newLeftFrame) \<noteq> Some (previousLeftTimestamp idleTracking) \<and>
   1010 - previousLeftTimestamp idleTracking \<ge> trackingRate initialState \<and>
   trim (frame (imageLeftEye newLeftFrame)) \<noteq> [] \<and>
   map_option proceed
     (fst (runTracking initialState newLeftFrame 1010 (initialState, newLeftFrame, 1010)
            idleTracking)) = Some False \<and>
   previousLeftTimestamp
     (snd (runTracking initialState newLeftFrame 1010 (initialState, newLeftFrame, 1010)
            idleTracking)) = 900"
  by (simp add: runTracking_def frameGates_def Let_def split_beta newLeftFrame_def
      bothOnlineDivergent_def initialState_def idleTracking_def trim_def isWhiteSpace_def)

theorem unsynced_gates_witness:
  "map_option (\<lambda>p. (proceed p, validLeft p, validRight p))
     (fst (runTracking initialState bothOnlineDivergent 1040
            (initialState, bothOnlineDivergent, 1041) idleTracking))
     = Some (True, True, True) \<and>
   previousLeftTimestamp
     (snd (runTracking initialState bothOnlineDivergent 1040
            (initialState, bothOnlineDivergent, 1041) idleTracking)) = 1000 \<and>
   previousRightTimestamp
     (snd (runTracking initialState bothOnlineDivergent 1040
            (initialState, bothOnlineDivergent, 1041) idleTracking)) = 1005 \<and>
   map_option (\<lambda>p. (proceed p, validLeft p, validRight p))
     (fst (runTracking initialState bothOnlineDivergent 1010
            (initialState, bothOnlineDivergent, 1011) idleTracking))
     = Some (False, False, False)"
proof -
  have h: "\<not> ongoingTracking idleTracking" "\<not> syncedEyeUpdates initialState"
    "status (imageLeftEye bothOnlineDivergent) = online"
    "status (imageRightEye bothOnlineDivergent) = online"
    "timestamp (imageLeftEye bothOnlineDivergent) = Some 1000"
    "timestamp (imageRightEye bothOnlineDivergent) = Some 1005"
    by (simp_all add: idleTracking_def initialState_def bothOnlineDivergent_def)
  have v: "trim (frame (imageLeftEye bothOnlineDivergent)) \<noteq> []"
    "trim (frame (imageRightEye bothOnlineDivergent)) \<noteq> []"
    "previousLeftTimestamp idleTracking = 900" "previousRightTimestamp idleTracking = 1005"
    "trackingRate initialState = 25"
    by (simp_all add: idleTracking_def initialState_def bothOnlineDivergent_def trim_def
        isWhiteSpace_def)
  show ?thesis
    using unsynced_gates [OF h, of 1040 "(initialState, bothOnlineDivergent, 1041)"]
      unsynced_gates [OF h, of 1010 "(initialState, bothOnlineDivergent, 1011)"]
    by (simp add: v)
qed

section \<open>Properties of the range normalization\<close>










text \<open>
  In the native mode and with the transmission off no sender normalizes, so that there the
  extrema are all 0 when a call that reloads the models returns.
\<close>

lemma runSends_append: "runSends (xs @ ys) n = runSends ys (runSends xs n)"
  by (induction xs arbitrary: n) simp_all

lemma runSends_native:
  assumes "currentMode cfg = ModeNone \<or> currentMode cfg = ModeNative"
  shows "runSends (fst (startTrackingTransmission cfg st now s)) n = n"
  using assms
  by (auto simp: startTrackingTransmission_def split_beta Let_def runSends_append
      updateOscEndpoint_def nativeEyeMovement_def nativeEyeOpenness_def)


section \<open>Properties of the camera reconnection\<close>

lemma attemptConnection_closed: "closed h \<Longrightarrow> attemptConnection env h = h"
  by (simp add: attemptConnection_def)

lemma retryCallback_closed: "closed h \<Longrightarrow> retryCallback env h = h"
  by (simp add: retryCallback_def)

lemma runCallbacks_closed: "closed h \<Longrightarrow> runCallbacks env ds h = h"
  by (induction ds) (simp_all add: retryCallback_closed)

lemma runTimers_closed:
  "closed h \<Longrightarrow> closed (runTimers env now h) \<and>
     connections (runTimers env now h) = connections h"
  by (simp add: runTimers_def runCallbacks_closed)

lemma cameraStep_closed:
  assumes "closed h"
  shows "closed (snd (cameraStep e (env, h))) \<and>
         length (connections (snd (cameraStep e (env, h)))) = length (connections h)"
  using assms
  by (cases e) (simp_all add: onError_def runTimers_closed close_def split: option.split)

lemma cameraRun_closed:
  assumes "closed h"
  shows "closed (snd (cameraRun es (env, h))) \<and>
         length (connections (snd (cameraRun es (env, h)))) = length (connections h)"
  using assms
proof (induction es arbitrary: env h)
  case Nil
  then show ?case by simp
next
  case (Cons e es)
  obtain env' h' where st: "cameraStep e (env, h) = (env', h')" by (cases "cameraStep e (env, h)")
  have "closed h' \<and> length (connections h') = length (connections h)"
    using cameraStep_closed[OF Cons.prems, of e env] st by simp
  then show ?case using Cons.IH[of h' env'] st by simp
qed

lemma retryCallback_connections:
  "connections (retryCallback env h) =
     (if \<not> closed h \<and> \<not> shuttingDown env \<and>
         endpointOf (storeConfig env) (side h) = ipPort h \<and>
         \<not> forcedOffline (storeConfig env) (side h)
      then connections h @ [True] else connections h)"
  by (cases "side h")
    (auto simp: retryCallback_def attemptConnection_def endpointOf_def forcedOffline_def)

text \<open>
  Claim C9. When a connection reports an error (or its stale-frame close) at time \<open>t\<close>,
  the retry is set for \<open>t + 2000\<close>: as long as the time is before that (and no older
  retry is due), nothing happens to the handle and the retry stays pending; once the
  time is reached the callback runs. The callback creates a new connection exactly when
  the handle has not been closed, the service is not shutting down, the configured
  endpoint of that eye is the one the handle was opened with, and the forced-offline
  flag of that eye is false. And once \<^verbatim>\<open>close()\<close> has been called on the handle, no
  sequence of errors, elapsing timers, configuration changes or further closes makes it
  create a connection: a pending retry is without effect.
\<close>

theorem reconnect_policy:
  "((\<forall>d \<in> set (timers h). now < d) \<and> now < t + 2000 \<longrightarrow>
       runTimers env now (onError t h) = onError t h) \<and>
   (timers h = [] \<and> t + 2000 \<le> now \<longrightarrow>
       runTimers env now (onError t h) = retryCallback env h) \<and>
   connections (retryCallback env h) =
     (if \<not> closed h \<and> \<not> shuttingDown env \<and>
         endpointOf (storeConfig env) (side h) = ipPort h \<and>
         \<not> forcedOffline (storeConfig env) (side h)
      then connections h @ [True] else connections h) \<and>
   closed (snd (cameraRun es (env, close h))) \<and>
   length (connections (snd (cameraRun es (env, close h)))) = length (connections h)"
proof (intro conjI impI)
  assume a: "(\<forall>d \<in> set (timers h). now < d) \<and> now < t + 2000"
  then have "filter (\<lambda>d. d \<le> now) (timers h) = []"
    and "filter (\<lambda>d. \<not> d \<le> now) (timers h) = timers h"
    by (auto simp: filter_empty_conv filter_id_conv)
  then show "runTimers env now (onError t h) = onError t h"
    using a by (simp add: runTimers_def onError_def)
next
  assume a: "timers h = [] \<and> t + 2000 \<le> now"
  then have same: "h\<lparr>timers := []\<rparr> = h" by (cases h) simp
  have "runTimers env now (onError t h) = retryCallback env (h\<lparr>timers := []\<rparr>)"
    using a by (simp add: runTimers_def onError_def)
  then show "runTimers env now (onError t h) = retryCallback env h"
    by (simp only: same)
next
  show "connections (retryCallback env h) =
     (if \<not> closed h \<and> \<not> shuttingDown env \<and>
         endpointOf (storeConfig env) (side h) = ipPort h \<and>
         \<not> forcedOffline (storeConfig env) (side h)
      then connections h @ [True] else connections h)"
    by (rule retryCallback_connections)
next
  have c: "closed (close h)" by (simp add: close_def)
  have l: "length (connections (close h)) = length (connections h)"
    by (simp add: close_def split: option.split)
  show "closed (snd (cameraRun es (env, close h)))"
    using cameraRun_closed[OF c, of es env] by simp
  show "length (connections (snd (cameraRun es (env, close h)))) = length (connections h)"
    using cameraRun_closed[OF c, of es env] l by simp
qed

theorem reconnect_policy_witness:
  "connections leftHandle = [True] \<and>
   connections (runTimers cameraEnv 2999 (onError 1000 leftHandle)) = [True] \<and>
   timers (runTimers cameraEnv 2999 (onError 1000 leftHandle)) = [3000] \<and>
   connections (runTimers cameraEnv 3000 (onError 1000 leftHandle)) = [True, True] \<and>
   connections (retryCallback (cameraEnv\<lparr>shuttingDown := True\<rparr>) leftHandle) = [True] \<and>
   length (connections (snd (cameraRun [CloseHandle, TimePasses 3000]
       (cameraEnv, onError 1000 leftHandle)))) = 1"
proof -
  have h: "\<forall>d \<in> set (timers leftHandle). (2999::real) < d" "(2999::real) < 1000 + 2000"
    "timers leftHandle = []" "(1000::real) + 2000 \<le> 3000"
    by (simp_all add: leftHandle_def connectWithReattempt_def attemptConnection_def)
  have v: "connections leftHandle = [True]" "closed leftHandle = False"
    "side leftHandle = LeftEye" "ipPort leftHandle = ''192.168.0.10:8080''"
    "timers leftHandle = []"
    by (simp_all add: leftHandle_def connectWithReattempt_def attemptConnection_def
        cameraEnv_def initialState_def)
  have e: "shuttingDown cameraEnv = False"
    "endpointOf (storeConfig cameraEnv) LeftEye = ''192.168.0.10:8080''"
    "forcedOffline (storeConfig cameraEnv) LeftEye = False"
    by (simp_all add: cameraEnv_def initialState_def endpointOf_def forcedOffline_def)
  show ?thesis
    using reconnect_policy [of leftHandle 2999 1000 cameraEnv "[TimePasses 3000]"]
      reconnect_policy [of leftHandle 3000 1000 cameraEnv "[TimePasses 3000]"]
      reconnect_policy [of leftHandle 3000 1000 "cameraEnv\<lparr>shuttingDown := True\<rparr>" "[]"]
      reconnect_policy [of "onError 1000 leftHandle" 3000 1000 cameraEnv "[TimePasses 3000]"]
      h
    by (simp add: v e onError_def)
qed

end
